theory Spec2Isabelle
  imports Complex_Main "HOL-Library.Sublist" "HOL-Library.Product_Lexorder" "HOL-Library.Multiset"
begin

section \<open>Job tracker server actions (src/utils/actions.ts)\<close>

text \<open>
  The server actions of \<^verbatim>\<open>src/utils/actions.ts\<close> are embedded as functions of the
  caller's identity (what Clerk's \<^verbatim>\<open>auth()\<close> returns), the call's arguments and the
  storage. The storage is the \<^verbatim>\<open>Job\<close> table behind the Prisma client: a list of rows
  and, for every client operation, whether it fails on this request.
\<close>

subsection \<open>Strings\<close>

text \<open>
  \<^verbatim>\<open>String.prototype.toLowerCase\<close> on the ASCII range: the letters A to Z move to a to z,
  every other character is kept. A string is a list of 8-bit characters here; the three
  status keys are ASCII and contain no letter that a non-ASCII character lower-cases to.
\<close>

definition lowerChar :: "char \<Rightarrow> char" where
  "lowerChar c =
     (case map_of (zip ''ABCDEFGHIJKLMNOPQRSTUVWXYZ'' ''abcdefghijklmnopqrstuvwxyz'') c of
        Some l \<Rightarrow> l
      | None \<Rightarrow> c)"

definition toLowerCase :: "string \<Rightarrow> string" where
  "toLowerCase s = map lowerChar s"

subsection \<open>Dates\<close>

text \<open>
  A \<^verbatim>\<open>Date\<close> is read through its local calendar fields, as dayjs reads it: the year,
  the month, the day of the month and the milliseconds since midnight. The chronological
  order is the lexicographic order of these fields (\<open>dateKey\<close>). Years are natural
  numbers: dates before year 0 are outside the model.
\<close>

datatype Month = Jan | Feb | Mar | Apr | May | Jun | Jul | Aug | Sep | Oct | Nov | Dec

fun monthIndex :: "Month \<Rightarrow> nat" where
  "monthIndex Jan = 0"
| "monthIndex Feb = 1"
| "monthIndex Mar = 2"
| "monthIndex Apr = 3"
| "monthIndex May = 4"
| "monthIndex Jun = 5"
| "monthIndex Jul = 6"
| "monthIndex Aug = 7"
| "monthIndex Sep = 8"
| "monthIndex Oct = 9"
| "monthIndex Nov = 10"
| "monthIndex Dec = 11"

definition monthOfIndex :: "nat \<Rightarrow> Month" where
  "monthOfIndex n = [Jan, Feb, Mar, Apr, May, Jun, Jul, Aug, Sep, Oct, Nov, Dec] ! (n mod 12)"

text \<open>dayjs's \<^verbatim>\<open>MMM\<close>: the first three letters of the English month name.\<close>

fun monthShort :: "Month \<Rightarrow> string" where
  "monthShort Jan = ''Jan''"
| "monthShort Feb = ''Feb''"
| "monthShort Mar = ''Mar''"
| "monthShort Apr = ''Apr''"
| "monthShort May = ''May''"
| "monthShort Jun = ''Jun''"
| "monthShort Jul = ''Jul''"
| "monthShort Aug = ''Aug''"
| "monthShort Sep = ''Sep''"
| "monthShort Oct = ''Oct''"
| "monthShort Nov = ''Nov''"
| "monthShort Dec = ''Dec''"

record Date =
  year :: nat
  month :: Month
  dayOfMonth :: nat
  msOfDay :: nat

definition dateKey :: "Date \<Rightarrow> nat \<times> nat \<times> nat \<times> nat" where
  "dateKey d = (year d, monthIndex (month d), dayOfMonth d, msOfDay d)"

definition isLeapYear :: "nat \<Rightarrow> bool" where
  "isLeapYear y = ((y mod 4 = 0 \<and> y mod 100 \<noteq> 0) \<or> y mod 400 = 0)"

fun daysInMonth :: "nat \<Rightarrow> Month \<Rightarrow> nat" where
  "daysInMonth y Feb = (if isLeapYear y then 29 else 28)"
| "daysInMonth y Apr = 30"
| "daysInMonth y Jun = 30"
| "daysInMonth y Sep = 30"
| "daysInMonth y Nov = 30"
| "daysInMonth y m = 31"

text \<open>
  \<^verbatim>\<open>dayjs().subtract(n, "month")\<close>: the month moves back n calendar months, the day of
  the month is cut to the length of the month reached, the time of day is kept.
\<close>

definition subtractMonths :: "nat \<Rightarrow> Date \<Rightarrow> Date" where
  "subtractMonths n d =
     (let total = year d * 12 + monthIndex (month d) - n;
          y = total div 12;
          m = monthOfIndex total
      in \<lparr>year = y, month = m, dayOfMonth = min (dayOfMonth d) (daysInMonth y m),
          msOfDay = msOfDay d\<rparr>)"

text \<open>The decimal digits of a number, and dayjs's \<^verbatim>\<open>YY\<close>: \<^verbatim>\<open>String(year).slice(-2)\<close>.\<close>

fun decimal :: "nat \<Rightarrow> string" where
  "decimal n =
     (if n < 10 then [''0123456789'' ! n] else decimal (n div 10) @ [''0123456789'' ! (n mod 10)])"

declare decimal.simps [simp del]

definition sliceLast2 :: "string \<Rightarrow> string" where
  "sliceLast2 s = drop (length s - 2) s"

text \<open>\<^verbatim>\<open>dayjs(d).format("MMM YY")\<close>\<close>

definition formatMMMYY :: "Date \<Rightarrow> string" where
  "formatMMMYY d = monthShort (month d) @ '' '' @ sliceLast2 (decimal (year d))"

subsection \<open>The Job model and the storage\<close>

record Job =
  id' :: string
  clerkId :: string
  createdAt :: Date
  updatedAt :: Date
  position :: string
  company :: string
  location :: string
  status :: string
  mode :: string

datatype PrismaOp = Create | FindMany | Count | FindUnique | Update | Delete | GroupBy

text \<open>
  \<open>rows\<close> is the table. \<open>faults\<close> holds the client operations that fail on this
  request (the database is unreachable, the connection drops): such a call throws.
\<close>

record Storage =
  rows :: "Job list"
  faults :: "PrismaOp set"

datatype ZodIssue = ZodIssue string string

datatype error =
    ZodError "ZodIssue list"
  | PrismaClientValidationError
  | PrismaClientKnownRequestError string
  | PrismaClientInitializationError

text \<open>
  What a call of a server action comes to: it returns a value, it leaves through
  \<^verbatim>\<open>redirect(url)\<close>, or an exception escapes to the caller.
\<close>

datatype 'a Outcome = Return 'a | Redirect string | Throw error

subsection \<open>JavaScript numbers\<close>

text \<open>
  A number is a finite value, NaN or an infinity. Finite values are rationals and the
  arithmetic on them is exact: the rounding of a double (a result that needs more than
  53 bits) and the sign of a zero are outside the model. The operations are the ones the
  actions use: \<^verbatim>\<open>a - b\<close>, \<^verbatim>\<open>a * b\<close>, \<^verbatim>\<open>a / b\<close> and \<^verbatim>\<open>Math.ceil\<close>.
\<close>

datatype JsNumber = Num rat | NaN | PosInfinity | NegInfinity

fun jsMinus :: "JsNumber \<Rightarrow> JsNumber \<Rightarrow> JsNumber" where
  "jsMinus (Num a) (Num b) = Num (a - b)"
| "jsMinus NaN y = NaN"
| "jsMinus x NaN = NaN"
| "jsMinus (Num a) PosInfinity = NegInfinity"
| "jsMinus (Num a) NegInfinity = PosInfinity"
| "jsMinus PosInfinity PosInfinity = NaN"
| "jsMinus NegInfinity NegInfinity = NaN"
| "jsMinus PosInfinity y = PosInfinity"
| "jsMinus NegInfinity y = NegInfinity"

fun jsTimes :: "JsNumber \<Rightarrow> JsNumber \<Rightarrow> JsNumber" where
  "jsTimes (Num a) (Num b) = Num (a * b)"
| "jsTimes NaN y = NaN"
| "jsTimes x NaN = NaN"
| "jsTimes (Num a) y =
     (if a = 0 then NaN else if (0 < a) = (y = PosInfinity) then PosInfinity else NegInfinity)"
| "jsTimes x (Num b) =
     (if b = 0 then NaN else if (0 < b) = (x = PosInfinity) then PosInfinity else NegInfinity)"
| "jsTimes x y = (if x = y then PosInfinity else NegInfinity)"

fun jsDivide :: "JsNumber \<Rightarrow> JsNumber \<Rightarrow> JsNumber" where
  "jsDivide (Num a) (Num b) =
     (if b = 0 then (if a = 0 then NaN else if 0 < a then PosInfinity else NegInfinity)
      else Num (a / b))"
| "jsDivide NaN y = NaN"
| "jsDivide x NaN = NaN"
| "jsDivide (Num a) y = Num 0"
| "jsDivide x (Num b) = (if (0 \<le> b) = (x = PosInfinity) then PosInfinity else NegInfinity)"
| "jsDivide x y = NaN"

fun mathCeil :: "JsNumber \<Rightarrow> JsNumber" where
  "mathCeil (Num a) = Num (of_int \<lceil>a\<rceil>)"
| "mathCeil x = x"

subsection \<open>JavaScript objects sent by the caller\<close>

text \<open>
  The \<^verbatim>\<open>values\<close> object of create and update is typed \<^verbatim>\<open>CreateAndEditJobType\<close>, but a
  server action receives whatever object the caller sends: a map from property names to
  values, possibly with more properties than the type names. The values are strings,
  numbers, booleans, null, dates, nested objects (their properties in a list) and
  arrays; a property that holds \<^verbatim>\<open>undefined\<close> is read as absent by the schema and by
  the storage client alike, and is an absent key here.
\<close>

datatype JsValue =
    JsString string
  | JsNumeric JsNumber
  | JsBool bool
  | JsNull
  | JsDate Date
  | JsObj "(string \<times> JsValue) list"
  | JsArray "JsValue list"

type_synonym JsObject = "string \<rightharpoonup> JsValue"

subsection \<open>Validation schema\<close>

text \<open>
  \<^verbatim>\<open>createAndEditJobSchema\<close> is declared in \<^verbatim>\<open>utils/types.ts\<close>, which is not among the
  sources; its three parts below follow the spec (sections 3, 4.3 and 6). Each returns
  the issues of the field it checks; properties the schema does not name are ignored.
\<close>

text \<open>
  Modelled from the spec: the check of position, company and location, declared in the
  missing \<^verbatim>\<open>utils/types.ts\<close>. The field is a string of at least 2 characters
  ("non-empty, practically at least 2 characters").
\<close>

definition checkMin2 :: "JsObject \<Rightarrow> string \<Rightarrow> ZodIssue list" where
  "checkMin2 obj k =
     (case obj k of
        Some (JsString s) \<Rightarrow>
          if 2 \<le> length s then [] else [ZodIssue k ''must be at least 2 characters'']
      | Some _ \<Rightarrow> [ZodIssue k ''expected string'']
      | None \<Rightarrow> [ZodIssue k ''required''])"

text \<open>
  Modelled from the spec: the check of status and mode, declared in the missing
  \<^verbatim>\<open>utils/types.ts\<close>. The field is one of the values of its category set.
\<close>

definition checkEnum :: "JsObject \<Rightarrow> string \<Rightarrow> string list \<Rightarrow> ZodIssue list" where
  "checkEnum obj k allowed =
     (case obj k of
        Some (JsString s) \<Rightarrow> if s \<in> set allowed then [] else [ZodIssue k ''invalid enum value'']
      | Some _ \<Rightarrow> [ZodIssue k ''invalid enum value'']
      | None \<Rightarrow> [ZodIssue k ''required''])"

text \<open>
  Modelled from the spec: the schema object of the missing \<^verbatim>\<open>utils/types.ts\<close>.
  Status is one of pending, interview, declined; mode is one of full-time, part-time,
  internship.
\<close>

definition createAndEditJobSchema :: "JsObject \<Rightarrow> ZodIssue list" where
  "createAndEditJobSchema obj =
     checkMin2 obj ''position'' @ checkMin2 obj ''company'' @ checkMin2 obj ''location''
     @ checkEnum obj ''status'' [''pending'', ''interview'', ''declined'']
     @ checkEnum obj ''mode'' [''full-time'', ''part-time'', ''internship'']"

text \<open>\<^verbatim>\<open>schema.parse(values)\<close> throws a ZodError that carries the issues.\<close>

definition zodParse :: "JsObject \<Rightarrow> error + unit" where
  "zodParse obj =
     (case createAndEditJobSchema obj of [] \<Rightarrow> Inr () | issues \<Rightarrow> Inl (ZodError issues))"

subsection \<open>The Prisma client on the Job table\<close>

text \<open>
  The client's operations as the actions call them, on the PostgreSQL datasource the
  repository configures.
\<close>

text \<open>
  PostgreSQL's \<^verbatim>\<open>LIKE\<close>, pattern first: \<^verbatim>\<open>%\<close> stands for any run of characters,
  \<^verbatim>\<open>_\<close> for any one character, a backslash makes the character after it stand for
  itself, every other character stands for itself, and letter case counts. A pattern
  that ends in a lone backslash is an error in PostgreSQL; the patterns built below end
  in \<^verbatim>\<open>%\<close>, so that case (no match here) is never reached.
\<close>

fun like :: "string \<Rightarrow> string \<Rightarrow> bool" where
  "like [] t = (t = [])"
| "like (p # ps) [] = (p = CHR ''%'' \<and> like ps [])"
| "like (p # ps) (c # cs) =
     (if p = CHR ''%'' then like ps (c # cs) \<or> like (p # ps) cs
      else if p = CHR ''_'' then like ps cs
      else if p = CHR 0x5C then (case ps of [] \<Rightarrow> False | q # qs \<Rightarrow> c = q \<and> like qs cs)
      else c = p \<and> like ps cs)"

text \<open>
  A string filter \<^verbatim>\<open>{contains: t}\<close> with no \<^verbatim>\<open>mode\<close> is the default mode: the client
  puts t, as it is, between two \<^verbatim>\<open>%\<close> and the database matches the column with
  \<^verbatim>\<open>LIKE\<close>. So the column holds t as a contiguous substring, with letter case counting,
  when t has none of the characters \<^verbatim>\<open>%\<close>, \<^verbatim>\<open>_\<close> and backslash, which keep their
  meaning in the pattern. The mode \<^verbatim>\<open>"insensitive"\<close> matches without letter case.
\<close>

datatype QueryMode = Default | Insensitive

definition stringContains :: "QueryMode \<Rightarrow> string \<Rightarrow> string \<Rightarrow> bool" where
  "stringContains m field t =
     (case m of
        Default \<Rightarrow> like (''%'' @ t @ ''%'') field
      | Insensitive \<Rightarrow> like (toLowerCase (''%'' @ t @ ''%'')) (toLowerCase field))"

text \<open>
  A \<^verbatim>\<open>JobWhereInput\<close> object is the list of its conditions, all of which a row must
  meet; \<^verbatim>\<open>OR\<close> holds alternatives, one of which a row must meet.
\<close>

datatype Where =
    IdEquals string
  | ClerkIdEquals string
  | StatusEquals string
  | PositionContains string QueryMode
  | CompanyContains string QueryMode
  | CreatedAtGte Date
  | CreatedAtLte Date
  | OR "Where list"

fun matches :: "Job \<Rightarrow> Where \<Rightarrow> bool" where
  "matches j (IdEquals i) = (id' j = i)"
| "matches j (ClerkIdEquals u) = (clerkId j = u)"
| "matches j (StatusEquals s) = (status j = s)"
| "matches j (PositionContains t m) = stringContains m (position j) t"
| "matches j (CompanyContains t m) = stringContains m (company j) t"
| "matches j (CreatedAtGte d) = (dateKey d \<le> dateKey (createdAt j))"
| "matches j (CreatedAtLte d) = (dateKey (createdAt j) \<le> dateKey d)"
| "matches j (OR ws) = (\<exists>w \<in> set ws. matches j w)"

definition satisfies :: "Where list \<Rightarrow> Job \<Rightarrow> bool" where
  "satisfies ws j = (\<forall>w \<in> set ws. matches j w)"

datatype SortOrder = Asc | Desc

text \<open>
  \<^verbatim>\<open>orderBy: {createdAt: ...}\<close>. The query names no tiebreak: rows with equal
  \<open>createdAt\<close> come back in an order the database chooses. Here they keep the order
  they have in the table, in both directions; what is proved about ordered results
  holds for every order of such rows.
\<close>

fun orderByCreatedAt :: "SortOrder \<Rightarrow> Job list \<Rightarrow> Job list" where
  "orderByCreatedAt Asc js = sort_key (\<lambda>j. dateKey (createdAt j)) js"
| "orderByCreatedAt Desc js = rev (sort_key (\<lambda>j. dateKey (createdAt j)) (rev js))"

text \<open>
  \<^verbatim>\<open>skip\<close> and \<^verbatim>\<open>take\<close> are Int arguments: the client takes a number that is an
  integer of the signed 64-bit range and refuses every other one (a fraction, NaN, an
  infinity, an integer out of range). A negative \<^verbatim>\<open>skip\<close> is refused as well; a
  negative \<^verbatim>\<open>take\<close> counts from the end of the ordered rows.
\<close>

definition intArg :: "JsNumber \<Rightarrow> int option" where
  "intArg x =
     (case x of
        Num q \<Rightarrow>
          if of_int \<lfloor>q\<rfloor> = q \<and> - (2 ^ 63) \<le> \<lfloor>q\<rfloor> \<and> \<lfloor>q\<rfloor> \<le> 2 ^ 63 - 1 then Some \<lfloor>q\<rfloor> else None
      | _ \<Rightarrow> None)"

definition optIntArg :: "JsNumber option \<Rightarrow> int option option" where
  "optIntArg a =
     (case a of
        None \<Rightarrow> Some None
      | Some x \<Rightarrow> (case intArg x of None \<Rightarrow> None | Some n \<Rightarrow> Some (Some n)))"

definition skipTake :: "int option \<Rightarrow> int option \<Rightarrow> 'a list \<Rightarrow> 'a list" where
  "skipTake skip tk xs =
     (let s = (case skip of None \<Rightarrow> 0 | Some n \<Rightarrow> nat n)
      in case tk of
           None \<Rightarrow> drop s xs
         | Some t \<Rightarrow>
             if 0 \<le> t then take (nat t) (drop s xs)
             else rev (take (nat (- t)) (drop s (rev xs))))"

definition job_findMany ::
  "Where list \<Rightarrow> SortOrder \<Rightarrow> JsNumber option \<Rightarrow> JsNumber option \<Rightarrow> Storage
     \<Rightarrow> error + Job list" where
  "job_findMany wh ord skip tk db =
     (case (optIntArg skip, optIntArg tk) of
        (Some s, Some t) \<Rightarrow>
          if (case s of None \<Rightarrow> False | Some n \<Rightarrow> n < 0) then Inl PrismaClientValidationError
          else if FindMany \<in> faults db then Inl PrismaClientInitializationError
          else Inr (skipTake s t (orderByCreatedAt ord (filter (satisfies wh) (rows db))))
      | _ \<Rightarrow> Inl PrismaClientValidationError)"

definition job_count :: "Where list \<Rightarrow> Storage \<Rightarrow> error + nat" where
  "job_count wh db =
     (if Count \<in> faults db then Inl PrismaClientInitializationError
      else Inr (length (filter (satisfies wh) (rows db))))"

text \<open>
  \<^verbatim>\<open>groupBy({by: ["status"], _count: {status: true}, where})\<close>: one pair per distinct
  status among the matching rows, with the number of those rows.
\<close>

definition job_groupBy_status :: "Where list \<Rightarrow> Storage \<Rightarrow> error + (string \<times> nat) list" where
  "job_groupBy_status wh db =
     (if GroupBy \<in> faults db then Inl PrismaClientInitializationError
      else let ms = filter (satisfies wh) (rows db)
           in Inr (map (\<lambda>s. (s, length (filter (\<lambda>j. status j = s) ms)))
                       (remdups (map status ms))))"

definition job_findUnique :: "Where list \<Rightarrow> Storage \<Rightarrow> error + Job option" where
  "job_findUnique wh db =
     (if FindUnique \<in> faults db then Inl PrismaClientInitializationError
      else Inr (find (satisfies wh) (rows db)))"

text \<open>
  The \<^verbatim>\<open>data\<close> object of create and update. The client checks it before it reaches
  the database: a property that is no column of the model is rejected, and so is a
  value of the wrong type. A DateTime column is written as a \<^verbatim>\<open>Date\<close> or as a string
  in ISO 8601 form. How the client reads such a string is not fixed here:
  \<open>readDateTime\<close>, an argument of everything that takes a data object, gives the date
  a string stands for, or nothing for a string the client refuses. A column the object
  leaves out keeps the value given as its default.
\<close>

definition stringColumns :: "string list" where
  "stringColumns = [''id'', ''clerkId'', ''position'', ''company'', ''location'', ''status'',
                    ''mode'']"

definition dateColumns :: "string list" where
  "dateColumns = [''createdAt'', ''updatedAt'']"

definition isStringOrAbsent :: "JsValue option \<Rightarrow> bool" where
  "isStringOrAbsent v = (case v of None \<Rightarrow> True | Some (JsString s) \<Rightarrow> True | Some _ \<Rightarrow> False)"

definition isDateOrAbsent :: "(string \<Rightarrow> Date option) \<Rightarrow> JsValue option \<Rightarrow> bool" where
  "isDateOrAbsent readDateTime v =
     (case v of
        None \<Rightarrow> True
      | Some (JsDate d) \<Rightarrow> True
      | Some (JsString s) \<Rightarrow> readDateTime s \<noteq> None
      | Some _ \<Rightarrow> False)"

definition validData :: "(string \<Rightarrow> Date option) \<Rightarrow> JsObject \<Rightarrow> bool" where
  "validData readDateTime obj =
     (dom obj \<subseteq> set (stringColumns @ dateColumns)
      \<and> (\<forall>k \<in> set stringColumns. isStringOrAbsent (obj k))
      \<and> (\<forall>k \<in> set dateColumns. isDateOrAbsent readDateTime (obj k)))"

definition stringColumn :: "JsObject \<Rightarrow> string \<Rightarrow> string \<Rightarrow> string" where
  "stringColumn obj k dflt = (case obj k of Some (JsString s) \<Rightarrow> s | _ \<Rightarrow> dflt)"

definition dateColumn :: "(string \<Rightarrow> Date option) \<Rightarrow> JsObject \<Rightarrow> string \<Rightarrow> Date \<Rightarrow> Date" where
  "dateColumn readDateTime obj k dflt =
     (case obj k of
        Some (JsDate d) \<Rightarrow> d
      | Some (JsString s) \<Rightarrow> (case readDateTime s of Some d \<Rightarrow> d | None \<Rightarrow> dflt)
      | _ \<Rightarrow> dflt)"

definition applyData :: "(string \<Rightarrow> Date option) \<Rightarrow> JsObject \<Rightarrow> Job \<Rightarrow> Job" where
  "applyData readDateTime obj dflt =
     \<lparr>id' = stringColumn obj ''id'' (id' dflt),
      clerkId = stringColumn obj ''clerkId'' (clerkId dflt),
      createdAt = dateColumn readDateTime obj ''createdAt'' (createdAt dflt),
      updatedAt = dateColumn readDateTime obj ''updatedAt'' (updatedAt dflt),
      position = stringColumn obj ''position'' (position dflt),
      company = stringColumn obj ''company'' (company dflt),
      location = stringColumn obj ''location'' (location dflt),
      status = stringColumn obj ''status'' (status dflt),
      mode = stringColumn obj ''mode'' (mode dflt)\<rparr>"

text \<open>
  \<^verbatim>\<open>create({data})\<close>: the six columns without a default are required; \<^verbatim>\<open>id\<close> defaults
  to a generated uuid, \<^verbatim>\<open>createdAt\<close> and \<^verbatim>\<open>updatedAt\<close> to the current time. The id is
  the primary key: a row whose id is already in the table is refused (P2002).
\<close>

definition requiredColumns :: "string list" where
  "requiredColumns = [''clerkId'', ''position'', ''company'', ''location'', ''status'', ''mode'']"

definition job_create ::
  "(string \<Rightarrow> Date option) \<Rightarrow> string \<Rightarrow> Date \<Rightarrow> JsObject \<Rightarrow> Storage
     \<Rightarrow> error + (Job \<times> Storage)" where
  "job_create readDateTime uuid now data db =
     (if \<not> validData readDateTime data \<or> \<not> set requiredColumns \<subseteq> dom data
        then Inl PrismaClientValidationError
      else if Create \<in> faults db then Inl PrismaClientInitializationError
      else
        let job = applyData readDateTime data
                    \<lparr>id' = uuid, clerkId = [], createdAt = now, updatedAt = now,
                     position = [], company = [], location = [], status = [], mode = []\<rparr>
        in if id' job \<in> set (map id' (rows db))
           then Inl (PrismaClientKnownRequestError ''P2002'')
           else Inr (job, db\<lparr>rows := rows db @ [job]\<rparr>))"

text \<open>
  \<^verbatim>\<open>update({where, data})\<close>: the row the unique \<^verbatim>\<open>where\<close> selects takes the columns of
  \<^verbatim>\<open>data\<close>, and \<^verbatim>\<open>updatedAt\<close> the current time unless \<^verbatim>\<open>data\<close> sets it. In
  \<^verbatim>\<open>data\<close> a column is given as a value or as the object \<^verbatim>\<open>{set: value}\<close>. A \<^verbatim>\<open>data\<close>
  without any column writes nothing: the row comes back as it is, \<^verbatim>\<open>updatedAt\<close>
  included. No such row is the error P2025.
\<close>

definition unwrapSet :: "JsValue \<Rightarrow> JsValue" where
  "unwrapSet v = (case v of JsObj [(k, w)] \<Rightarrow> if k = ''set'' then w else v | _ \<Rightarrow> v)"

definition job_update ::
  "(string \<Rightarrow> Date option) \<Rightarrow> Date \<Rightarrow> Where list \<Rightarrow> JsObject \<Rightarrow> Storage
     \<Rightarrow> error + (Job \<times> Storage)" where
  "job_update readDateTime now wh data db =
     (let columns = map_option unwrapSet \<circ> data
      in if \<not> validData readDateTime columns then Inl PrismaClientValidationError
      else if Update \<in> faults db then Inl PrismaClientInitializationError
      else
        case find (satisfies wh) (rows db) of
          None \<Rightarrow> Inl (PrismaClientKnownRequestError ''P2025'')
        | Some old \<Rightarrow>
            let new = (if dom data = {} then old
                       else applyData readDateTime columns (old\<lparr>updatedAt := now\<rparr>))
            in if id' new \<noteq> id' old \<and> id' new \<in> set (map id' (rows db))
               then Inl (PrismaClientKnownRequestError ''P2002'')
               else Inr (new, db\<lparr>rows := map (\<lambda>j. if j = old then new else j) (rows db)\<rparr>))"

text \<open>\<^verbatim>\<open>delete({where})\<close>: the selected row leaves the table and is returned.\<close>

definition job_delete :: "Where list \<Rightarrow> Storage \<Rightarrow> error + (Job \<times> Storage)" where
  "job_delete wh db =
     (if Delete \<in> faults db then Inl PrismaClientInitializationError
      else
        case find (satisfies wh) (rows db) of
          None \<Rightarrow> Inl (PrismaClientKnownRequestError ''P2025'')
        | Some old \<Rightarrow> Inr (old, db\<lparr>rows := filter (\<lambda>j. j \<noteq> old) (rows db)\<rparr>))"

subsection \<open>The server actions\<close>

text \<open>
  \<^verbatim>\<open>authenticateAndRedirect\<close>: \<^verbatim>\<open>auth()\<close> gives the user's id or null; \<^verbatim>\<open>!userId\<close> holds
  for null and for the empty string.
\<close>

definition authenticateAndRedirect :: "string option \<Rightarrow> string Outcome" where
  "authenticateAndRedirect userId =
     (case userId of
        None \<Rightarrow> Redirect ''/''
      | Some u \<Rightarrow> if u = [] then Redirect ''/'' else Return u)"

text \<open>
  \<^verbatim>\<open>createJobAction(values)\<close>, with the client's reading of DateTime strings and the
  uuid and the time the storage gives the new row.
  The result of \<^verbatim>\<open>parse\<close> is dropped: \<^verbatim>\<open>values\<close> itself is spread into \<^verbatim>\<open>data\<close>, then
  \<^verbatim>\<open>clerkId\<close> is set. Every exception of the \<^verbatim>\<open>try\<close> block is caught and gives null.
\<close>

definition createJobAction ::
  "(string \<Rightarrow> Date option) \<Rightarrow> string option \<Rightarrow> JsObject \<Rightarrow> string \<Rightarrow> Date \<Rightarrow> Storage
     \<Rightarrow> Job option Outcome \<times> Storage" where
  "createJobAction readDateTime auth values uuid now db =
     (case authenticateAndRedirect auth of
        Redirect url \<Rightarrow> (Redirect url, db)
      | Throw e \<Rightarrow> (Throw e, db)
      | Return userId \<Rightarrow>
          (case zodParse values of
             Inl e \<Rightarrow> (Return None, db)
           | Inr u \<Rightarrow>
               (case job_create readDateTime uuid now (values(''clerkId'' \<mapsto> JsString userId))
                       db of
                  Inl e \<Rightarrow> (Return None, db)
                | Inr (job, db') \<Rightarrow> (Return (Some job), db'))))"

record JobsPage =
  jobs :: "Job list"
  count :: nat
  page :: JsNumber
  totalPages :: JsNumber

text \<open>
  The \<^verbatim>\<open>where\<close> clause of \<^verbatim>\<open>getAllJobsAction\<close>: the owner, the search term when it is
  truthy (present and not the empty string), the status when it is truthy and not "all".
\<close>

definition whereClause :: "string \<Rightarrow> string option \<Rightarrow> string option \<Rightarrow> Where list" where
  "whereClause userId search jobStatus =
     [ClerkIdEquals userId]
     @ (case search of
          None \<Rightarrow> []
        | Some s \<Rightarrow>
            if s \<noteq> [] then [OR [PositionContains s Default, CompanyContains s Default]] else [])
     @ (case jobStatus of
          None \<Rightarrow> []
        | Some st \<Rightarrow> if st \<noteq> [] \<and> st \<noteq> ''all'' then [StatusEquals st] else [])"

text \<open>
  \<^verbatim>\<open>getAllJobsAction({search, jobStatus, page = 1, limit = 10})\<close>: an argument left out
  is \<open>None\<close>; \<open>page\<close> and \<open>limit\<close> are numbers. The \<^verbatim>\<open>catch\<close> turns every exception
  of the two queries into the empty page.
\<close>

definition getAllJobsAction ::
  "string option \<Rightarrow> string option \<Rightarrow> string option \<Rightarrow> JsNumber option \<Rightarrow> JsNumber option
     \<Rightarrow> Storage \<Rightarrow> JobsPage Outcome" where
  "getAllJobsAction auth search jobStatus pageArg limitArg db =
     (let pg = (case pageArg of None \<Rightarrow> Num 1 | Some p \<Rightarrow> p);
          lim = (case limitArg of None \<Rightarrow> Num 10 | Some l \<Rightarrow> l)
      in case authenticateAndRedirect auth of
           Redirect url \<Rightarrow> Redirect url
         | Throw e \<Rightarrow> Throw e
         | Return userId \<Rightarrow>
             (let wh = whereClause userId search jobStatus;
                  skip = jsTimes (jsMinus pg (Num 1)) lim
              in case job_findMany wh Desc (Some skip) (Some lim) db of
                   Inl e \<Rightarrow> Return \<lparr>jobs = [], count = 0, page = Num 1, totalPages = Num 0\<rparr>
                 | Inr js \<Rightarrow>
                     (case job_count wh db of
                        Inl e \<Rightarrow>
                          Return \<lparr>jobs = [], count = 0, page = Num 1, totalPages = Num 0\<rparr>
                      | Inr n \<Rightarrow>
                          Return \<lparr>jobs = js, count = n, page = pg,
                                  totalPages = mathCeil (jsDivide (Num (of_nat n)) lim)\<rparr>)))"

definition deleteJobAction :: "string option \<Rightarrow> string \<Rightarrow> Storage \<Rightarrow> Job option Outcome \<times> Storage" where
  "deleteJobAction auth i db =
     (case authenticateAndRedirect auth of
        Redirect url \<Rightarrow> (Redirect url, db)
      | Throw e \<Rightarrow> (Throw e, db)
      | Return userId \<Rightarrow>
          (case job_delete [IdEquals i, ClerkIdEquals userId] db of
             Inl e \<Rightarrow> (Return None, db)
           | Inr (job, db') \<Rightarrow> (Return (Some job), db')))"

text \<open>
  \<^verbatim>\<open>getSingleJobAction(id)\<close>: an exception of the lookup gives null, and null leaves
  through \<^verbatim>\<open>redirect("/jobs")\<close>.
\<close>

definition getSingleJobAction :: "string option \<Rightarrow> string \<Rightarrow> Storage \<Rightarrow> Job Outcome" where
  "getSingleJobAction auth i db =
     (case authenticateAndRedirect auth of
        Redirect url \<Rightarrow> Redirect url
      | Throw e \<Rightarrow> Throw e
      | Return userId \<Rightarrow>
          (let job = (case job_findUnique [IdEquals i, ClerkIdEquals userId] db of
                        Inl e \<Rightarrow> None
                      | Inr r \<Rightarrow> r)
           in case job of None \<Rightarrow> Redirect ''/jobs'' | Some j \<Rightarrow> Return j))"

text \<open>
  \<^verbatim>\<open>updateJobAction(id, values)\<close>: \<^verbatim>\<open>values\<close> is spread into \<^verbatim>\<open>data\<close> as it is, with
  no check by the schema and no \<^verbatim>\<open>clerkId\<close> set after it.
\<close>

definition updateJobAction ::
  "(string \<Rightarrow> Date option) \<Rightarrow> string option \<Rightarrow> string \<Rightarrow> JsObject \<Rightarrow> Date \<Rightarrow> Storage
     \<Rightarrow> Job option Outcome \<times> Storage" where
  "updateJobAction readDateTime auth i values now db =
     (case authenticateAndRedirect auth of
        Redirect url \<Rightarrow> (Redirect url, db)
      | Throw e \<Rightarrow> (Throw e, db)
      | Return userId \<Rightarrow>
          (case job_update readDateTime now [IdEquals i, ClerkIdEquals userId] values db of
             Inl e \<Rightarrow> (Return None, db)
           | Inr (job, db') \<Rightarrow> (Return (Some job), db')))"

text \<open>
  \<^verbatim>\<open>getStatsAction()\<close>. The reducer adds a group's count under its lower-cased status
  when that is one of the three keys (\<^verbatim>\<open>acc[normalized] || 0\<close> is 0 for a key not yet
  set); the result spreads the reduced object over the three zero defaults.
\<close>

definition countStatus :: "(string \<rightharpoonup> nat) \<Rightarrow> string \<times> nat \<Rightarrow> (string \<rightharpoonup> nat)" where
  "countStatus acc grp =
     (let normalized = toLowerCase (fst grp)
      in if normalized \<in> set [''pending'', ''interview'', ''declined'']
         then acc(normalized \<mapsto> (case acc normalized of None \<Rightarrow> 0 | Some v \<Rightarrow> v) + snd grp)
         else acc)"

definition getStatsAction :: "string option \<Rightarrow> Storage \<Rightarrow> (string \<rightharpoonup> nat) Outcome" where
  "getStatsAction auth db =
     (case authenticateAndRedirect auth of
        Redirect url \<Rightarrow> Redirect url
      | Throw e \<Rightarrow> Throw e
      | Return userId \<Rightarrow>
          (case job_groupBy_status [ClerkIdEquals userId] db of
             Inl e \<Rightarrow> Redirect ''/jobs''
           | Inr stats \<Rightarrow>
               (let statsObject = foldl countStatus Map.empty stats
                in Return ([''pending'' \<mapsto> 0, ''declined'' \<mapsto> 0, ''interview'' \<mapsto> 0]
                           ++ statsObject))))"

text \<open>
  \<^verbatim>\<open>getChartsDataAction()\<close>. The clock is read twice, for \<^verbatim>\<open>now\<close> and for
  \<^verbatim>\<open>sixMonthsAgo\<close>: \<open>now\<close> and \<open>now2\<close> are the two readings. The reducer looks for the
  first entry with the job's label and adds one to it, or pushes a new entry.
\<close>

record ChartEntry =
  date :: string
  count' :: nat

fun addApplication :: "string \<Rightarrow> ChartEntry list \<Rightarrow> ChartEntry list" where
  "addApplication d [] = [\<lparr>date = d, count' = 1\<rparr>]"
| "addApplication d (e # es) =
     (if date e = d then e\<lparr>count' := count' e + 1\<rparr> # es else e # addApplication d es)"

definition applicationsPerMonth :: "Job list \<Rightarrow> ChartEntry list" where
  "applicationsPerMonth js =
     foldl (\<lambda>acc job. addApplication (formatMMMYY (createdAt job)) acc) [] js"

definition getChartsDataAction ::
  "string option \<Rightarrow> Date \<Rightarrow> Date \<Rightarrow> Storage \<Rightarrow> ChartEntry list Outcome" where
  "getChartsDataAction auth now now2 db =
     (case authenticateAndRedirect auth of
        Redirect url \<Rightarrow> Redirect url
      | Throw e \<Rightarrow> Throw e
      | Return userId \<Rightarrow>
          (let sixMonthsAgo = subtractMonths 6 now2
           in case job_findMany [ClerkIdEquals userId, CreatedAtGte sixMonthsAgo, CreatedAtLte now]
                     Asc None None db of
                Inl e \<Rightarrow> Redirect ''/jobs''
              | Inr js \<Rightarrow> Return (applicationsPerMonth js)))"

text \<open>\<^verbatim>\<open>getAllJobsForDownloadAction()\<close>: no \<^verbatim>\<open>skip\<close>, no \<^verbatim>\<open>take\<close>; an exception gives [].\<close>

definition getAllJobsForDownloadAction :: "string option \<Rightarrow> Storage \<Rightarrow> Job list Outcome" where
  "getAllJobsForDownloadAction auth db =
     (case authenticateAndRedirect auth of
        Redirect url \<Rightarrow> Redirect url
      | Throw e \<Rightarrow> Throw e
      | Return userId \<Rightarrow>
          (case job_findMany [ClerkIdEquals userId] Desc None None db of
             Inl e \<Rightarrow> Return []
           | Inr js \<Rightarrow> Return js))"

subsection \<open>Calendar months\<close>

text \<open>
  The number of a calendar month (a year and a month), counted from January of year 0.
  The later month has the larger number; the proofs compare months through it.
\<close>

definition monthNo :: "nat \<times> Month \<Rightarrow> nat" where
  "monthNo p = fst p * 12 + monthIndex (snd p)"

subsection \<open>Example data\<close>

text \<open>
  Two jobs of user u1, created in October and November 2025, and a submission that
  carries, beside the five form fields, a \<open>clerkId\<close> and a \<open>createdAt\<close> of its own.
\<close>

definition oct3 :: Date where
  "oct3 = \<lparr>year = 2025, month = Oct, dayOfMonth = 3, msOfDay = 0\<rparr>"

definition nov3 :: Date where
  "nov3 = \<lparr>year = 2025, month = Nov, dayOfMonth = 3, msOfDay = 0\<rparr>"

definition jobA :: Job where
  "jobA = \<lparr>id' = ''a'', clerkId = ''u1'', createdAt = oct3, updatedAt = oct3,
            position = ''Engineer'', company = ''Acme'', location = ''Berlin'',
            status = ''Pending'', mode = ''full-time''\<rparr>"

definition jobB :: Job where
  "jobB = \<lparr>id' = ''b'', clerkId = ''u1'', createdAt = nov3, updatedAt = nov3,
            position = ''Designer'', company = ''Bolt'', location = ''Berlin'',
            status = ''pending'', mode = ''full-time''\<rparr>"

definition exampleDb :: Storage where
  "exampleDb = \<lparr>rows = [jobA, jobB], faults = {}\<rparr>"

definition exampleValues :: JsObject where
  "exampleValues =
     [''position'' \<mapsto> JsString ''Tester'', ''company'' \<mapsto> JsString ''Cyan'',
      ''location'' \<mapsto> JsString ''Oslo'', ''status'' \<mapsto> JsString ''pending'',
      ''mode'' \<mapsto> JsString ''internship'', ''clerkId'' \<mapsto> JsString ''u1'',
      ''createdAt'' \<mapsto> JsString ''2025-10-03T00:00:00.000Z'']"

text \<open>
  A reading of DateTime strings for the examples: it knows the one string they send,
  midnight of 3 October 2025, and refuses every other string.
\<close>

definition exampleReader :: "string \<Rightarrow> Date option" where
  "exampleReader s = (if s = ''2025-10-03T00:00:00.000Z'' then Some oct3 else None)"

definition jobC :: Job where
  "jobC = \<lparr>id' = ''c'', clerkId = ''u2'', createdAt = oct3, updatedAt = nov3,
            position = ''Tester'', company = ''Cyan'', location = ''Oslo'',
            status = ''pending'', mode = ''internship''\<rparr>"

text \<open>
  A table for the monthly trend read on 3 November 2025: with the two jobs above, one
  job of 30 April 2025 (before the window opens on 3 May) and one of 1 December 2025
  (after the reading).
\<close>

definition apr30 :: Date where
  "apr30 = \<lparr>year = 2025, month = Apr, dayOfMonth = 30, msOfDay = 0\<rparr>"

definition dec1 :: Date where
  "dec1 = \<lparr>year = 2025, month = Dec, dayOfMonth = 1, msOfDay = 0\<rparr>"

definition jobOld :: Job where
  "jobOld = \<lparr>id' = ''d'', clerkId = ''u1'', createdAt = apr30, updatedAt = apr30,
              position = ''Analyst'', company = ''Dune'', location = ''Rome'',
              status = ''declined'', mode = ''part-time''\<rparr>"

definition jobFuture :: Job where
  "jobFuture = \<lparr>id' = ''e'', clerkId = ''u1'', createdAt = dec1, updatedAt = dec1,
                 position = ''Writer'', company = ''Echo'', location = ''Lyon'',
                 status = ''interview'', mode = ''part-time''\<rparr>"

definition trendDb :: Storage where
  "trendDb = \<lparr>rows = [jobB, jobFuture, jobA, jobOld], faults = {}\<rparr>"

section \<open>Ownership\<close>

lemma find_other_owner:
  assumes "distinct (map id' rs)" and "R \<in> set rs" and "clerkId R \<noteq> B"
  shows "find (satisfies [IdEquals (id' R), ClerkIdEquals B]) rs = None"
proof -
  have "\<not> satisfies [IdEquals (id' R), ClerkIdEquals B] j" if "j \<in> set rs" for j
  proof
    assume s: "satisfies [IdEquals (id' R), ClerkIdEquals B] j"
    then have "id' j = id' R" and c: "clerkId j = B"
      by (simp_all add: satisfies_def)
    with assms(1,2) that have "j = R"
      by (meson distinct_map inj_onD)
    with c assms(3) show False by simp
  qed
  then show ?thesis by (auto simp: find_None_iff)
qed

text \<open>
  C1. The id is the table's primary key (no two rows share one). For a row R of user A
  and any other authenticated user B: \<open>getSingleJobAction\<close> called by B with R's id
  leaves through the redirect to /jobs, and \<open>updateJobAction\<close> and \<open>deleteJobAction\<close>
  called by B with R's id return null and leave the storage as it was, whatever the
  values sent, however the client reads DateTime strings and whichever storage
  operations fail.
\<close>

theorem ownership_isolation:
  assumes "distinct (map id' (rows db))" and "R \<in> set (rows db)" and "clerkId R = A"
    and "B \<noteq> A" and "B \<noteq> []"
  shows "getSingleJobAction (Some B) (id' R) db = Redirect ''/jobs''
       \<and> updateJobAction readDateTime (Some B) (id' R) vals now db = (Return None, db)
       \<and> deleteJobAction (Some B) (id' R) db = (Return None, db)"
proof -
  have f: "find (satisfies [IdEquals (id' R), ClerkIdEquals B]) (rows db) = None"
    using assms by (intro find_other_owner) auto
  have 1: "getSingleJobAction (Some B) (id' R) db = Redirect ''/jobs''"
    using f assms(5)
    by (simp add: getSingleJobAction_def authenticateAndRedirect_def job_findUnique_def)
  have 2: "updateJobAction readDateTime (Some B) (id' R) vals now db = (Return None, db)"
    using f assms(5)
    by (simp add: updateJobAction_def authenticateAndRedirect_def job_update_def Let_def)
  have 3: "deleteJobAction (Some B) (id' R) db = (Return None, db)"
    using f assms(5)
    by (simp add: deleteJobAction_def authenticateAndRedirect_def job_delete_def)
  from 1 2 3 show ?thesis by simp
qed

theorem ownership_isolation_witness:
  "getSingleJobAction (Some ''u2'') ''a'' exampleDb = Redirect ''/jobs''
   \<and> updateJobAction exampleReader (Some ''u2'') ''a'' exampleValues nov3 exampleDb
       = (Return None, exampleDb)
   \<and> deleteJobAction (Some ''u2'') ''a'' exampleDb = (Return None, exampleDb)"
  using ownership_isolation[of exampleDb jobA "''u1''" "''u2''" exampleReader exampleValues nov3]
  by (simp add: exampleDb_def jobA_def jobB_def)

text \<open>
  Two updates of job a by its owner: an empty \<open>data\<close> returns the row as it is, the
  storage unchanged; a status given as \<open>{set: "interview"}\<close> is written, with
  \<open>updatedAt\<close> refreshed.
\<close>

lemma update_empty_example:
  "updateJobAction exampleReader (Some ''u1'') ''a'' Map.empty nov3 exampleDb
     = (Return (Some jobA), exampleDb)"
  by (simp add: updateJobAction_def authenticateAndRedirect_def job_update_def validData_def
      isStringOrAbsent_def isDateOrAbsent_def satisfies_def exampleDb_def jobA_def jobB_def
      Let_def)

lemma update_set_example:
  "updateJobAction exampleReader (Some ''u1'') ''a''
       [''status'' \<mapsto> JsObj [(''set'', JsString ''interview'')]] nov3 exampleDb
     = (Return (Some (jobA\<lparr>status := ''interview'', updatedAt := nov3\<rparr>)),
        \<lparr>rows = [jobA\<lparr>status := ''interview'', updatedAt := nov3\<rparr>, jobB], faults = {}\<rparr>)"
  by (simp add: updateJobAction_def authenticateAndRedirect_def job_update_def validData_def
      unwrapSet_def stringColumns_def dateColumns_def isStringOrAbsent_def isDateOrAbsent_def
      applyData_def stringColumn_def dateColumn_def satisfies_def exampleDb_def jobA_def
      jobB_def Let_def)

section \<open>Creation\<close>

lemma applyData_clerkId:
  "obj ''clerkId'' = Some (JsString u) \<Longrightarrow> clerkId (applyData readDateTime obj d) = u"
  by (simp add: applyData_def stringColumn_def)

lemma job_create_Inr:
  assumes "job_create readDateTime uuid now data db = Inr (job, db')"
  shows "job = applyData readDateTime data
                 \<lparr>id' = uuid, clerkId = [], createdAt = now, updatedAt = now,
                  position = [], company = [], location = [], status = [], mode = []\<rparr>
         \<and> db' = db\<lparr>rows := rows db @ [job]\<rparr>"
  using assms by (auto simp: job_create_def Let_def split: if_splits)

text \<open>
  C2, as the code has it at creation. Whenever \<open>createJobAction\<close> returns a job, the
  caller is authenticated and the job's \<open>clerkId\<close> is the caller's identity, whatever
  the values object holds (a \<open>clerkId\<close> property of its own included) and however the
  client reads DateTime strings; that job is the one row appended to the table.
\<close>

theorem create_owner_is_caller:
  assumes "createJobAction readDateTime auth vals uuid now db = (Return (Some job), db')"
  shows "auth = Some (clerkId job) \<and> rows db' = rows db @ [job] \<and> faults db' = faults db"
proof -
  from assms obtain u where a: "authenticateAndRedirect auth = Return u"
    by (auto simp: createJobAction_def split: Outcome.splits)
  then have u: "auth = Some u"
    by (auto simp: authenticateAndRedirect_def split: option.splits if_splits)
  from assms a have c: "job_create readDateTime uuid now (vals(''clerkId'' \<mapsto> JsString u)) db
                          = Inr (job, db')"
    by (auto simp: createJobAction_def split: sum.splits)
  from job_create_Inr[OF c] have "clerkId job = u" and "db' = db\<lparr>rows := rows db @ [job]\<rparr>"
    by (simp_all add: applyData_clerkId)
  with u show ?thesis by simp
qed

theorem create_owner_is_caller_witness:
  "createJobAction exampleReader (Some ''u2'') exampleValues ''c'' nov3 exampleDb
     = (Return (Some jobC), \<lparr>rows = [jobA, jobB, jobC], faults = {}\<rparr>)
   \<and> exampleValues ''clerkId'' = Some (JsString ''u1'')
   \<and> Some ''u2'' = Some (clerkId jobC)"
proof -
  have h: "createJobAction exampleReader (Some ''u2'') exampleValues ''c'' nov3 exampleDb
             = (Return (Some jobC), \<lparr>rows = [jobA, jobB, jobC], faults = {}\<rparr>)"
    by (simp add: createJobAction_def authenticateAndRedirect_def zodParse_def
        createAndEditJobSchema_def checkMin2_def checkEnum_def exampleValues_def
        job_create_def validData_def stringColumns_def dateColumns_def requiredColumns_def
        isStringOrAbsent_def isDateOrAbsent_def applyData_def stringColumn_def
        dateColumn_def exampleReader_def exampleDb_def jobA_def jobB_def jobC_def Let_def)
  from create_owner_is_caller[OF h] h show ?thesis
    by (simp add: exampleValues_def)
qed

text \<open>
  C2 as stated fails after creation: user u1 updates the job a of their own with a
  values object that holds \<open>clerkId\<close> u2, and the stored row then belongs to u2. The
  owner of the row is caller input.
\<close>

theorem update_moves_owner:
  "clerkId jobA = ''u1''
   \<and> updateJobAction exampleReader (Some ''u1'') ''a'' [''clerkId'' \<mapsto> JsString ''u2''] nov3
        exampleDb
       = (Return (Some (jobA\<lparr>clerkId := ''u2'', updatedAt := nov3\<rparr>)),
          \<lparr>rows = [jobA\<lparr>clerkId := ''u2'', updatedAt := nov3\<rparr>, jobB], faults = {}\<rparr>)"
  by (simp add: updateJobAction_def authenticateAndRedirect_def job_update_def validData_def
      unwrapSet_def stringColumns_def dateColumns_def isStringOrAbsent_def isDateOrAbsent_def
      applyData_def stringColumn_def dateColumn_def satisfies_def exampleDb_def jobA_def
      jobB_def Let_def)

text \<open>
  The schema rejects a position, company or location shorter than 2 characters and a
  status or mode outside its category set.
\<close>

lemma schema_rejects_short:
  assumes "k \<in> {''position'', ''company'', ''location''}" and "vals k = Some (JsString s)" and "length s < 2"
  shows "createAndEditJobSchema vals \<noteq> []"
  using assms by (auto simp: createAndEditJobSchema_def checkMin2_def)

lemma schema_rejects_status:
  assumes "vals ''status'' = Some (JsString s)" and "s \<notin> {''pending'', ''interview'', ''declined''}"
  shows "createAndEditJobSchema vals \<noteq> []"
  using assms by (auto simp: createAndEditJobSchema_def checkEnum_def)

lemma schema_rejects_mode:
  assumes "vals ''mode'' = Some (JsString s)" and "s \<notin> {''full-time'', ''part-time'', ''internship''}"
  shows "createAndEditJobSchema vals \<noteq> []"
  using assms by (auto simp: createAndEditJobSchema_def checkEnum_def)

lemma zodParse_issues: "createAndEditJobSchema vals \<noteq> [] \<Longrightarrow> \<exists>e. zodParse vals = Inl e"
  by (simp add: zodParse_def split: list.splits)

text \<open>
  C9, as the code has it. For every values object that fails the schema,
  \<open>createJobAction\<close> called by an authenticated user returns null and leaves the storage
  as it was: the ZodError with its field-level issues is caught inside the action and
  does not reach the caller.
\<close>

theorem create_invalid_returns_null:
  assumes "createAndEditJobSchema vals \<noteq> []" and "u \<noteq> []"
  shows "createJobAction readDateTime (Some u) vals uuid now db = (Return None, db)"
proof -
  from zodParse_issues[OF assms(1)] obtain e where "zodParse vals = Inl e" ..
  with assms(2) show ?thesis
    by (simp add: createJobAction_def authenticateAndRedirect_def)
qed

theorem create_invalid_returns_null_witness:
  "createAndEditJobSchema (exampleValues(''status'' \<mapsto> JsString ''hired'')) \<noteq> []
   \<and> createJobAction exampleReader (Some ''u2'') (exampleValues(''status'' \<mapsto> JsString ''hired''))
        ''c'' nov3 exampleDb
      = (Return None, exampleDb)"
proof -
  have h: "createAndEditJobSchema (exampleValues(''status'' \<mapsto> JsString ''hired'')) \<noteq> []"
    by (simp add: createAndEditJobSchema_def checkMin2_def checkEnum_def exampleValues_def)
  from create_invalid_returns_null[OF h, of "''u2''" exampleReader "''c''" nov3 exampleDb] h
  show ?thesis by simp
qed

text \<open>
  C9 as stated fails: for a submission with an empty position, \<open>parse\<close> throws the
  ZodError with the issue of the position field, and the action returns the bare null,
  not that error.
\<close>

theorem create_invalid_counterexample:
  "zodParse (exampleValues(''position'' \<mapsto> JsString ''''))
      = Inl (ZodError [ZodIssue ''position'' ''must be at least 2 characters''])
   \<and> createJobAction exampleReader (Some ''u2'') (exampleValues(''position'' \<mapsto> JsString ''''))
        ''c'' nov3 exampleDb
      = (Return None, exampleDb)"
  by (simp add: createJobAction_def authenticateAndRedirect_def zodParse_def
        createAndEditJobSchema_def checkMin2_def checkEnum_def exampleValues_def)

section \<open>Listing and export\<close>

lemma satisfies_owner: "satisfies [ClerkIdEquals u] = (\<lambda>j. clerkId j = u)"
  by (rule ext) (simp add: satisfies_def)

lemma orderBy_Desc_sorted:
  "sorted_wrt (\<lambda>a b. dateKey (createdAt b) \<le> dateKey (createdAt a)) (orderByCreatedAt Desc js)"
proof -
  have "sorted (map (\<lambda>j. dateKey (createdAt j)) (sort_key (\<lambda>j. dateKey (createdAt j)) (rev js)))"
    by (rule sorted_sort_key)
  then have "sorted_wrt (\<lambda>a b. dateKey (createdAt a) \<le> dateKey (createdAt b))
               (sort_key (\<lambda>j. dateKey (createdAt j)) (rev js))"
    by (simp add: sorted_map)
  then show ?thesis
    by (simp add: sorted_wrt_rev)
qed

lemma orderBy_mset: "mset (orderByCreatedAt ord js) = mset js"
  by (cases ord) simp_all

text \<open>What the client makes of \<^verbatim>\<open>skip\<close> and \<^verbatim>\<open>take\<close>.\<close>

lemma intArg_of_int:
  assumes "- (2 ^ 63) \<le> n" and "n \<le> 2 ^ 63 - 1"
  shows "intArg (Num (of_int n)) = Some n"
  using assms by (simp add: intArg_def)

lemma job_findMany_negative_skip:
  assumes "q < 0"
  shows "job_findMany wh ord (Some (Num q)) tk db = Inl PrismaClientValidationError"
proof (cases "intArg (Num q)")
  case None
  then show ?thesis by (simp add: job_findMany_def optIntArg_def)
next
  case (Some n)
  then have "n = \<lfloor>q\<rfloor>"
    by (auto simp: intArg_def split: if_splits)
  with assms have "n < 0"
    by (simp add: floor_less_iff)
  with Some show ?thesis
    by (simp add: job_findMany_def optIntArg_def split: option.splits)
qed

lemma job_findMany_fault:
  assumes "FindMany \<in> faults db"
  shows "(case job_findMany wh ord skip tk db of Inl e \<Rightarrow> a | Inr js \<Rightarrow> f js) = a"
  using assms by (simp add: job_findMany_def split: option.splits)

lemma job_findMany_all:
  assumes "FindMany \<notin> faults db"
  shows "job_findMany wh ord None None db = Inr (orderByCreatedAt ord (filter (satisfies wh) (rows db)))"
  using assms by (simp add: job_findMany_def optIntArg_def skipTake_def del: orderByCreatedAt.simps)

text \<open>
  C7. For an authenticated caller and every argument: when a query of
  \<open>getAllJobsAction\<close> fails, the action returns the empty page
  \<open>{jobs: [], count: 0, page: 1, totalPages: 0}\<close>, and no exception escapes it in any
  case; when the query of \<open>getStatsAction\<close> or of \<open>getChartsDataAction\<close> fails, the
  action leaves through the redirect to /jobs and returns no data.
\<close>

theorem fail_soft_and_fail_hard:
  assumes "u \<noteq> []"
  shows "(FindMany \<in> faults db \<or> Count \<in> faults db \<longrightarrow>
            getAllJobsAction (Some u) search jobStatus pageArg limitArg db
              = Return \<lparr>jobs = [], count = 0, page = Num 1, totalPages = Num 0\<rparr>)
       \<and> (\<forall>e. getAllJobsAction (Some u) search jobStatus pageArg limitArg db \<noteq> Throw e)
       \<and> (GroupBy \<in> faults db \<longrightarrow> getStatsAction (Some u) db = Redirect ''/jobs'')
       \<and> (FindMany \<in> faults db \<longrightarrow> getChartsDataAction (Some u) now now2 db = Redirect ''/jobs'')"
proof -
  have 1: "getAllJobsAction (Some u) search jobStatus pageArg limitArg db
              = Return \<lparr>jobs = [], count = 0, page = Num 1, totalPages = Num 0\<rparr>"
    if "FindMany \<in> faults db \<or> Count \<in> faults db"
  proof (cases "FindMany \<in> faults db")
    case True
    from assms show ?thesis
      by (simp add: getAllJobsAction_def authenticateAndRedirect_def Let_def
          job_findMany_fault[OF True])
  next
    case False
    with that have "Count \<in> faults db" by simp
    with assms show ?thesis
      by (simp add: getAllJobsAction_def authenticateAndRedirect_def job_count_def Let_def
          split: sum.splits)
  qed
  have 2: "getAllJobsAction (Some u) search jobStatus pageArg limitArg db \<noteq> Throw e" for e
    using assms
    by (simp add: getAllJobsAction_def authenticateAndRedirect_def Let_def split: sum.splits)
  have 3: "GroupBy \<in> faults db \<Longrightarrow> getStatsAction (Some u) db = Redirect ''/jobs''"
    using assms
    by (simp add: getStatsAction_def authenticateAndRedirect_def job_groupBy_status_def)
  have 4: "getChartsDataAction (Some u) now now2 db = Redirect ''/jobs''"
    if "FindMany \<in> faults db"
    using assms
    by (simp add: getChartsDataAction_def authenticateAndRedirect_def Let_def
        job_findMany_fault[OF that])
  from 1 2 3 4 show ?thesis by blast
qed

theorem fail_soft_and_fail_hard_witness:
  "getAllJobsAction (Some ''u1'') None None None None (exampleDb\<lparr>faults := {Count}\<rparr>)
      = Return \<lparr>jobs = [], count = 0, page = Num 1, totalPages = Num 0\<rparr>
   \<and> getStatsAction (Some ''u1'') (exampleDb\<lparr>faults := {GroupBy}\<rparr>) = Redirect ''/jobs''
   \<and> getChartsDataAction (Some ''u1'') nov3 nov3 (exampleDb\<lparr>faults := {FindMany}\<rparr>) = Redirect ''/jobs''"
  using fail_soft_and_fail_hard[of "''u1''" "exampleDb\<lparr>faults := {Count}\<rparr>" None None None None nov3 nov3]
    fail_soft_and_fail_hard[of "''u1''" "exampleDb\<lparr>faults := {GroupBy}\<rparr>" None None None None nov3 nov3]
    fail_soft_and_fail_hard[of "''u1''" "exampleDb\<lparr>faults := {FindMany}\<rparr>" None None None None nov3 nov3]
  by simp

text \<open>
  C10. For an authenticated caller, \<open>getAllJobsForDownloadAction\<close> returns the empty
  list when its query fails; otherwise it returns all rows of the caller, each as often
  as the table holds it, newest first.
\<close>

theorem download_all_or_nothing:
  assumes "u \<noteq> []"
  shows "(FindMany \<in> faults db \<longrightarrow> getAllJobsForDownloadAction (Some u) db = Return [])
       \<and> (FindMany \<notin> faults db \<longrightarrow>
            (\<exists>js. getAllJobsForDownloadAction (Some u) db = Return js
                \<and> mset js = mset (filter (\<lambda>j. clerkId j = u) (rows db))
                \<and> sorted_wrt (\<lambda>a b. dateKey (createdAt b) \<le> dateKey (createdAt a)) js))"
proof -
  have 1: "getAllJobsForDownloadAction (Some u) db = Return []" if "FindMany \<in> faults db"
    using assms
    by (simp add: getAllJobsForDownloadAction_def authenticateAndRedirect_def
        job_findMany_fault[OF that])
  have 2: "getAllJobsForDownloadAction (Some u) db
             = Return (orderByCreatedAt Desc (filter (\<lambda>j. clerkId j = u) (rows db)))"
    if "FindMany \<notin> faults db"
    using assms
    by (simp add: getAllJobsForDownloadAction_def authenticateAndRedirect_def
        job_findMany_all[OF that] satisfies_owner del: orderByCreatedAt.simps)
  from 1 2 show ?thesis
    by (auto simp: orderBy_Desc_sorted orderBy_mset simp del: orderByCreatedAt.simps)
qed

theorem download_all_or_nothing_witness:
  "getAllJobsForDownloadAction (Some ''u1'') (exampleDb\<lparr>faults := {FindMany}\<rparr>) = Return []
   \<and> getAllJobsForDownloadAction (Some ''u1'') exampleDb = Return [jobB, jobA]"
proof -
  have "getAllJobsForDownloadAction (Some ''u1'') exampleDb = Return [jobB, jobA]"
    by (simp add: getAllJobsForDownloadAction_def authenticateAndRedirect_def job_findMany_def
      optIntArg_def skipTake_def satisfies_owner exampleDb_def jobA_def jobB_def oct3_def
      nov3_def dateKey_def)
  then show ?thesis
    using download_all_or_nothing[of "''u1''" "exampleDb\<lparr>faults := {FindMany}\<rparr>"]
      download_all_or_nothing[of "''u1''" exampleDb]
    by simp
qed

text \<open>
  The condition of \<open>getAllJobsAction\<close>, row by row: the owner; the search term, when it
  is not empty, held by the position or by the company; the status, when one is given
  that is neither empty nor "all".
\<close>

lemma satisfies_append: "satisfies (ws @ vs) j \<longleftrightarrow> satisfies ws j \<and> satisfies vs j"
  by (auto simp: satisfies_def)

lemma satisfies_whereClause:
  "satisfies (whereClause u search jobStatus)
     = (\<lambda>j. clerkId j = u
            \<and> (case search of
                  None \<Rightarrow> True
                | Some s \<Rightarrow> s = [] \<or> stringContains Default (position j) s
                             \<or> stringContains Default (company j) s)
            \<and> (case jobStatus of
                  None \<Rightarrow> True
                | Some st \<Rightarrow> st = [] \<or> st = ''all'' \<or> status j = st))"
proof (rule ext)
  fix j
  have 1: "satisfies [ClerkIdEquals u] j \<longleftrightarrow> clerkId j = u"
    by (simp add: satisfies_def)
  have 2: "satisfies (case search of
                        None \<Rightarrow> []
                      | Some s \<Rightarrow>
                          if s \<noteq> [] then [OR [PositionContains s Default, CompanyContains s Default]]
                          else []) j
             \<longleftrightarrow> (case search of
                    None \<Rightarrow> True
                  | Some s \<Rightarrow> s = [] \<or> stringContains Default (position j) s
                               \<or> stringContains Default (company j) s)"
    by (cases search) (auto simp: satisfies_def)
  have 3: "satisfies (case jobStatus of
                        None \<Rightarrow> []
                      | Some st \<Rightarrow> if st \<noteq> [] \<and> st \<noteq> ''all'' then [StatusEquals st] else []) j
             \<longleftrightarrow> (case jobStatus of
                    None \<Rightarrow> True
                  | Some st \<Rightarrow> st = [] \<or> st = ''all'' \<or> status j = st)"
    by (cases jobStatus) (auto simp: satisfies_def)
  show "satisfies (whereClause u search jobStatus) j
          = (clerkId j = u
             \<and> (case search of
                   None \<Rightarrow> True
                 | Some s \<Rightarrow> s = [] \<or> stringContains Default (position j) s
                              \<or> stringContains Default (company j) s)
             \<and> (case jobStatus of
                   None \<Rightarrow> True
                 | Some st \<Rightarrow> st = [] \<or> st = ''all'' \<or> status j = st))"
    unfolding whereClause_def satisfies_append 1 2 3 ..
qed

lemma ceiling_pages_cover:
  assumes "0 < P" and "\<lceil>rat_of_nat N / rat_of_int P\<rceil> < k"
  shows "int N \<le> (k - 1) * P"
proof -
  define T where "T = \<lceil>rat_of_nat N / rat_of_int P\<rceil>"
  have "rat_of_nat N / rat_of_int P \<le> rat_of_int T"
    unfolding T_def by (rule le_of_int_ceiling)
  then have "rat_of_nat N \<le> rat_of_int T * rat_of_int P"
    using assms(1) by (simp add: pos_divide_le_eq)
  then have "rat_of_int (int N) \<le> rat_of_int (T * P)"
    by simp
  then have "int N \<le> T * P"
    by (simp only: of_int_le_iff)
  moreover have "T * P \<le> (k - 1) * P"
    using assms unfolding T_def by (intro mult_right_mono) auto
  ultimately show ?thesis by simp
qed

text \<open>
  C3, as the code has it. For an authenticated caller, working queries, an integer page
  size P > 0 and an integer page k from 1 on, both within the integers a number holds
  exactly (P and the skip (k - 1) * P at most 2^53 - 1), with N rows of the caller
  matching the search and status conditions: \<open>getAllJobsAction\<close> returns count N, the
  page k and totalPages the ceiling of N / P, and its jobs are what follows the first
  (k - 1) * P rows of an arrangement of the matching rows in descending order of
  \<open>createdAt\<close>, at most P of them: min(P, max(0, N - (k - 1) * P)) rows, newest first.
  A page beyond totalPages holds no row and is no error.
\<close>

theorem pagination:
  assumes "u \<noteq> []" and "FindMany \<notin> faults db" and "Count \<notin> faults db"
    and "0 < P" and "P \<le> 2 ^ 53 - 1" and "1 \<le> k" and "(k - 1) * P \<le> 2 ^ 53 - 1"
    and "M = filter (\<lambda>j. clerkId j = u
                 \<and> (case search of
                       None \<Rightarrow> True
                     | Some s \<Rightarrow> s = [] \<or> stringContains Default (position j) s
                                  \<or> stringContains Default (company j) s)
                 \<and> (case jobStatus of
                       None \<Rightarrow> True
                     | Some st \<Rightarrow> st = [] \<or> st = ''all'' \<or> status j = st)) (rows db)"
    and "N = length M"
  shows "\<exists>arranged js.
            getAllJobsAction (Some u) search jobStatus (Some (Num (of_int k)))
                (Some (Num (of_int P))) db
              = Return \<lparr>jobs = js, count = N, page = Num (of_int k),
                        totalPages = Num (of_int \<lceil>rat_of_nat N / rat_of_int P\<rceil>)\<rparr>
          \<and> mset arranged = mset M
          \<and> sorted_wrt (\<lambda>a b. dateKey (createdAt b) \<le> dateKey (createdAt a)) arranged
          \<and> js = take (nat P) (drop (nat ((k - 1) * P)) arranged)
          \<and> int (length js) = min P (max 0 (int N - (k - 1) * P))
          \<and> sorted_wrt (\<lambda>a b. dateKey (createdAt b) \<le> dateKey (createdAt a)) js
          \<and> (\<lceil>rat_of_nat N / rat_of_int P\<rceil> < k \<longrightarrow> js = [])"
proof -
  define arranged where "arranged = orderByCreatedAt Desc M"
  define js where "js = take (nat P) (drop (nat ((k - 1) * P)) arranged)"
  have M: "M = filter (satisfies (whereClause u search jobStatus)) (rows db)"
    by (simp only: assms(8) satisfies_whereClause)
  have skip: "0 \<le> (k - 1) * P"
    using assms(4,6) by simp
  have len: "length arranged = N"
    using assms(9) by (simp add: arranged_def)
  have sk: "jsTimes (jsMinus (Num (of_int k)) (Num 1)) (Num (of_int P)) = Num (of_int ((k - 1) * P))"
    by simp
  have a1: "intArg (Num (of_int ((k - 1) * P))) = Some ((k - 1) * P)"
    using skip assms(7) by (intro intArg_of_int) simp_all
  have a2: "intArg (Num (of_int P)) = Some P"
    using assms(4,5) by (intro intArg_of_int) simp_all
  have fm: "job_findMany (whereClause u search jobStatus) Desc
              (Some (Num (of_int ((k - 1) * P)))) (Some (Num (of_int P))) db = Inr js"
    using assms(2,4) skip
    by (simp add: job_findMany_def optIntArg_def a1 a2 skipTake_def js_def arranged_def M
        del: orderByCreatedAt.simps of_int_mult of_int_diff)
  have ct: "job_count (whereClause u search jobStatus) db = Inr N"
    using assms(3) by (simp add: job_count_def assms(9) M)
  have tp: "mathCeil (jsDivide (Num (of_nat N)) (Num (of_int P)))
              = Num (of_int \<lceil>rat_of_nat N / rat_of_int P\<rceil>)"
    using assms(4) by simp
  have 1: "getAllJobsAction (Some u) search jobStatus (Some (Num (of_int k)))
                (Some (Num (of_int P))) db
              = Return \<lparr>jobs = js, count = N, page = Num (of_int k),
                        totalPages = Num (of_int \<lceil>rat_of_nat N / rat_of_int P\<rceil>)\<rparr>"
    using assms(1)
    by (simp only: getAllJobsAction_def authenticateAndRedirect_def Let_def sk fm ct tp
        option.case Outcome.case sum.case if_False)
  have 2: "int (length js) = min P (max 0 (int N - (k - 1) * P))"
    using assms(4) skip len unfolding js_def by simp
  have so: "sorted_wrt (\<lambda>a b. dateKey (createdAt b) \<le> dateKey (createdAt a)) arranged"
    unfolding arranged_def by (rule orderBy_Desc_sorted)
  then have 3: "sorted_wrt (\<lambda>a b. dateKey (createdAt b) \<le> dateKey (createdAt a)) js"
    unfolding js_def by (intro sorted_wrt_take sorted_wrt_drop)
  have 4: "js = []" if "\<lceil>rat_of_nat N / rat_of_int P\<rceil> < k"
  proof -
    from ceiling_pages_cover[OF assms(4) that] have "N \<le> nat ((k - 1) * P)"
      by linarith
    then show ?thesis
      unfolding js_def using len by simp
  qed
  have ms: "mset arranged = mset M"
    unfolding arranged_def by (rule orderBy_mset)
  from 1 2 3 4 so ms js_def show ?thesis by blast
qed


lemma example_page_2:
  "getAllJobsAction (Some ''u1'') None None (Some (Num 2)) (Some (Num 1)) exampleDb
     = Return \<lparr>jobs = [jobA], count = 2, page = Num 2, totalPages = Num 2\<rparr>"
  by (simp add: getAllJobsAction_def authenticateAndRedirect_def job_findMany_def
      job_count_def optIntArg_def intArg_def skipTake_def whereClause_def satisfies_owner
      exampleDb_def jobA_def jobB_def oct3_def nov3_def dateKey_def Let_def numeral_2_eq_2)

theorem pagination_witness:
  "''u1'' \<noteq> [] \<and> FindMany \<notin> faults exampleDb \<and> Count \<notin> faults exampleDb
   \<and> (0::int) < 1 \<and> (1::int) \<le> 2 ^ 53 - 1 \<and> (1::int) \<le> 2 \<and> ((2::int) - 1) * 1 \<le> 2 ^ 53 - 1
   \<and> getAllJobsAction (Some ''u1'') None None (Some (Num 2)) (Some (Num 1)) exampleDb
       = Return \<lparr>jobs = [jobA], count = 2, page = Num 2, totalPages = Num 2\<rparr>
   \<and> (\<exists>arranged js.
         getAllJobsAction (Some ''u1'') None None (Some (Num 2)) (Some (Num 1)) exampleDb
           = Return \<lparr>jobs = js, count = length (filter (\<lambda>j. clerkId j = ''u1'') (rows exampleDb)),
                     page = Num 2,
                     totalPages = Num (of_int \<lceil>rat_of_nat (length (filter (\<lambda>j. clerkId j = ''u1'')
                                                       (rows exampleDb))) / 1\<rceil>)\<rparr>
         \<and> mset arranged = mset (filter (\<lambda>j. clerkId j = ''u1'') (rows exampleDb))
         \<and> sorted_wrt (\<lambda>a b. dateKey (createdAt b) \<le> dateKey (createdAt a)) arranged
         \<and> js = take 1 (drop 1 arranged)
         \<and> int (length js)
             = min 1 (max 0 (int (length (filter (\<lambda>j. clerkId j = ''u1'') (rows exampleDb))) - 1))
         \<and> sorted_wrt (\<lambda>a b. dateKey (createdAt b) \<le> dateKey (createdAt a)) js)"
proof -
  have h1: "''u1'' \<noteq> []" by simp
  have h2: "FindMany \<notin> faults exampleDb" by (simp add: exampleDb_def)
  have h3: "Count \<notin> faults exampleDb" by (simp add: exampleDb_def)
  have h4: "(0::int) < 1" by simp
  have h5: "(1::int) \<le> 2 ^ 53 - 1" by simp
  have h6: "(1::int) \<le> 2" by simp
  have h7: "((2::int) - 1) * 1 \<le> 2 ^ 53 - 1" by simp
  from pagination[of "''u1''" exampleDb 1 2 _ None None, OF h1 h2 h3 h4 h5 h6 h7 refl refl]
  obtain arranged js where
    "getAllJobsAction (Some ''u1'') None None (Some (Num 2)) (Some (Num 1)) exampleDb
       = Return \<lparr>jobs = js, count = length (filter (\<lambda>j. clerkId j = ''u1'') (rows exampleDb)),
                 page = Num 2,
                 totalPages = Num (of_int \<lceil>rat_of_nat (length (filter (\<lambda>j. clerkId j = ''u1'')
                                                   (rows exampleDb))) / 1\<rceil>)\<rparr>"
    and "mset arranged = mset (filter (\<lambda>j. clerkId j = ''u1'') (rows exampleDb))"
    and "sorted_wrt (\<lambda>a b. dateKey (createdAt b) \<le> dateKey (createdAt a)) arranged"
    and "js = take 1 (drop 1 arranged)"
    and "int (length js)
           = min 1 (max 0 (int (length (filter (\<lambda>j. clerkId j = ''u1'') (rows exampleDb))) - 1))"
    and "sorted_wrt (\<lambda>a b. dateKey (createdAt b) \<le> dateKey (createdAt a)) js"
    by auto
  then have "\<exists>arranged js.
         getAllJobsAction (Some ''u1'') None None (Some (Num 2)) (Some (Num 1)) exampleDb
           = Return \<lparr>jobs = js, count = length (filter (\<lambda>j. clerkId j = ''u1'') (rows exampleDb)),
                     page = Num 2,
                     totalPages = Num (of_int \<lceil>rat_of_nat (length (filter (\<lambda>j. clerkId j = ''u1'')
                                                       (rows exampleDb))) / 1\<rceil>)\<rparr>
         \<and> mset arranged = mset (filter (\<lambda>j. clerkId j = ''u1'') (rows exampleDb))
         \<and> sorted_wrt (\<lambda>a b. dateKey (createdAt b) \<le> dateKey (createdAt a)) arranged
         \<and> js = take 1 (drop 1 arranged)
         \<and> int (length js)
             = min 1 (max 0 (int (length (filter (\<lambda>j. clerkId j = ''u1'') (rows exampleDb))) - 1))
         \<and> sorted_wrt (\<lambda>a b. dateKey (createdAt b) \<le> dateKey (createdAt a)) js"
    by blast
  with h1 h2 h3 h4 h5 h6 h7 example_page_2 show ?thesis
    by (intro conjI) assumption+
qed

text \<open>
  C3 as stated fails: user u1 has two rows and asks for page 10^19 with page size 1.
  The skip is beyond the range of the client's Int argument, the query is refused, and
  the action returns the empty page with count 0 and totalPages 0, not count 2 and
  totalPages 2.
\<close>

theorem pagination_counterexample:
  "length (filter (\<lambda>j. clerkId j = ''u1'') (rows exampleDb)) = 2
   \<and> getAllJobsAction (Some ''u1'') None None (Some (Num 10000000000000000000)) (Some (Num 1))
        exampleDb
       = Return \<lparr>jobs = [], count = 0, page = Num 1, totalPages = Num 0\<rparr>"
  by (simp add: getAllJobsAction_def authenticateAndRedirect_def job_findMany_def
      optIntArg_def intArg_def exampleDb_def jobA_def jobB_def)

text \<open>
  C8, as the code has it. Only a page left out is defaulted to 1. For a page below 1 and
  a positive page size (the default 10 included) the skip is negative, the query is
  refused, and the action returns the empty page
  \<open>{jobs: [], count: 0, page: 1, totalPages: 0}\<close>.
\<close>

theorem page_below_one_is_empty:
  assumes "u \<noteq> []" and "pg < 1"
    and "case limitArg of None \<Rightarrow> True | Some (Num l) \<Rightarrow> 0 < l | Some _ \<Rightarrow> False"
  shows "getAllJobsAction (Some u) search jobStatus (Some (Num pg)) limitArg db
           = Return \<lparr>jobs = [], count = 0, page = Num 1, totalPages = Num 0\<rparr>
       \<and> getAllJobsAction (Some u) search jobStatus None limitArg db
           = getAllJobsAction (Some u) search jobStatus (Some (Num 1)) limitArg db"
proof -
  obtain l where l: "(case limitArg of None \<Rightarrow> Num 10 | Some l \<Rightarrow> l) = Num l" and "0 < l"
    using assms(3) by (cases limitArg) (auto split: JsNumber.splits)
  with assms(2) have "(pg - 1) * l < 0"
    by (simp add: mult_less_0_iff)
  then have "job_findMany (whereClause u search jobStatus) Desc (Some (Num ((pg - 1) * l)))
               (Some (Num l)) db = Inl PrismaClientValidationError"
    by (rule job_findMany_negative_skip)
  then have "getAllJobsAction (Some u) search jobStatus (Some (Num pg)) limitArg db
           = Return \<lparr>jobs = [], count = 0, page = Num 1, totalPages = Num 0\<rparr>"
    using assms(1) l
    by (simp add: getAllJobsAction_def authenticateAndRedirect_def Let_def)
  moreover have "getAllJobsAction (Some u) search jobStatus None limitArg db
           = getAllJobsAction (Some u) search jobStatus (Some (Num 1)) limitArg db"
    by (simp add: getAllJobsAction_def)
  ultimately show ?thesis by simp
qed

theorem page_below_one_is_empty_witness:
  "getAllJobsAction (Some ''u1'') None None (Some (Num (- 2))) (Some (Num 5)) exampleDb
           = Return \<lparr>jobs = [], count = 0, page = Num 1, totalPages = Num 0\<rparr>
   \<and> getAllJobsAction (Some ''u1'') None None None (Some (Num 5)) exampleDb
           = getAllJobsAction (Some ''u1'') None None (Some (Num 1)) (Some (Num 5)) exampleDb"
  using page_below_one_is_empty[of "''u1''" "- 2" "Some (Num 5)" None None exampleDb]
  by simp

text \<open>
  C8 as stated fails: with two jobs stored, page 0 returns no job and count 0, page 1
  returns both jobs and count 2.
\<close>

theorem page_below_one_counterexample:
  "getAllJobsAction (Some ''u1'') None None (Some (Num 0)) None exampleDb
     = Return \<lparr>jobs = [], count = 0, page = Num 1, totalPages = Num 0\<rparr>
   \<and> getAllJobsAction (Some ''u1'') None None (Some (Num 1)) None exampleDb
     = Return \<lparr>jobs = [jobB, jobA], count = 2, page = Num 1, totalPages = Num 1\<rparr>"
proof -
  have c: "\<lceil>(1::rat) / 5\<rceil> = 1"
    by (rule ceiling_unique) simp_all
  show ?thesis
    by (simp add: getAllJobsAction_def authenticateAndRedirect_def job_findMany_def
        job_count_def optIntArg_def intArg_def whereClause_def skipTake_def satisfies_owner
        exampleDb_def jobA_def jobB_def oct3_def nov3_def dateKey_def Let_def c)
qed

text \<open>
  Pages that are no integers: page 3/2 with page size 1 asks for the skip 1/2 and page
  NaN for the skip NaN, which the client refuses; page 3/2 with page size 2 asks for the
  skip 1 and is served.
\<close>

lemma fractional_page_example:
  "getAllJobsAction (Some ''u1'') None None (Some (Num (3 / 2))) (Some (Num 1)) exampleDb
     = Return \<lparr>jobs = [], count = 0, page = Num 1, totalPages = Num 0\<rparr>
   \<and> getAllJobsAction (Some ''u1'') None None (Some NaN) None exampleDb
     = Return \<lparr>jobs = [], count = 0, page = Num 1, totalPages = Num 0\<rparr>
   \<and> getAllJobsAction (Some ''u1'') None None (Some (Num (3 / 2))) (Some (Num 2)) exampleDb
     = Return \<lparr>jobs = [jobA], count = 2, page = Num (3 / 2), totalPages = Num 1\<rparr>"
proof -
  have fl: "\<lfloor>(1::rat) / 2\<rfloor> = 0"
    by (rule floor_unique) simp_all
  show ?thesis
    by (simp add: getAllJobsAction_def authenticateAndRedirect_def job_findMany_def
        job_count_def optIntArg_def intArg_def whereClause_def skipTake_def satisfies_owner
        exampleDb_def jobA_def jobB_def oct3_def nov3_def dateKey_def Let_def fl)
qed

section \<open>Statistics\<close>

text \<open>
  The reducer, key by key: a key of the three that some group lower-cases to holds the
  sum of those groups' counts on top of what it held; every other key is untouched.
\<close>

lemma foldl_countStatus:
  "foldl countStatus acc gs k =
     (if k \<in> {''pending'', ''interview'', ''declined''} \<and> (\<exists>g \<in> set gs. toLowerCase (fst g) = k)
      then Some ((case acc k of None \<Rightarrow> 0 | Some v \<Rightarrow> v)
                 + sum_list (map snd (filter (\<lambda>g. toLowerCase (fst g) = k) gs)))
      else acc k)"
proof (induction gs arbitrary: acc)
  case Nil
  show ?case by simp
next
  case (Cons g gs)
  show ?case
    by (simp only: foldl_Cons Cons.IH) (auto simp: countStatus_def Let_def)
qed

lemma sum_indicator_distinct:
  assumes "distinct ss" and "x \<in> set ss"
  shows "sum_list (map (\<lambda>s. if x = s then 1 else 0) (filter Q ss)) = (if Q x then 1 else (0::nat))"
  using assms
proof (induction ss)
  case Nil
  then show ?case by simp
next
  case (Cons s ss)
  show ?case
  proof (cases "x = s")
    case True
    with Cons.prems have "x \<notin> set ss" by simp
    then have "sum_list (map (\<lambda>s. if x = s then 1 else 0) (filter Q ss)) = (0::nat)"
      by (induction ss) auto
    with True show ?thesis by simp
  next
    case False
    with Cons show ?thesis by simp
  qed
qed

lemma group_counts_sum:
  assumes "distinct ss" and "f ` set ms \<subseteq> set ss"
  shows "sum_list (map (\<lambda>s. length (filter (\<lambda>j. f j = s) ms)) (filter Q ss))
           = length (filter (\<lambda>j. Q (f j)) ms)"
  using assms(2)
proof (induction ms)
  case Nil
  show ?case by simp
next
  case (Cons j ms)
  then have in_ss: "f j \<in> set ss" and sub: "f ` set ms \<subseteq> set ss"
    by simp_all
  have "(\<lambda>s. length (filter (\<lambda>j. f j = s) (j # ms)))
          = (\<lambda>s. (if f j = s then 1 else 0) + length (filter (\<lambda>j. f j = s) ms))"
    by (rule ext) simp
  then have "sum_list (map (\<lambda>s. length (filter (\<lambda>j. f j = s) (j # ms))) (filter Q ss))
               = sum_list (map (\<lambda>s. if f j = s then 1 else 0) (filter Q ss))
                 + sum_list (map (\<lambda>s. length (filter (\<lambda>j. f j = s) ms)) (filter Q ss))"
    by (simp only: sum_list_addf)
  also have "\<dots> = (if Q (f j) then 1 else 0) + length (filter (\<lambda>j. Q (f j)) ms)"
    by (simp only: sum_indicator_distinct[OF assms(1) in_ss] Cons.IH[OF sub])
  finally show ?case by simp
qed

lemma groups_sum:
  "sum_list (map snd (filter (\<lambda>g. toLowerCase (fst g) = k)
       (map (\<lambda>s. (s, length (filter (\<lambda>j. status j = s) ms))) (remdups (map status ms)))))
     = length (filter (\<lambda>j. toLowerCase (status j) = k) ms)"
proof -
  have "sum_list (map snd (filter (\<lambda>g. toLowerCase (fst g) = k)
       (map (\<lambda>s. (s, length (filter (\<lambda>j. status j = s) ms))) (remdups (map status ms)))))
    = sum_list (map (\<lambda>s. length (filter (\<lambda>j. status j = s) ms))
         (filter (\<lambda>s. toLowerCase s = k) (remdups (map status ms))))"
    by (simp add: filter_map comp_def)
  also have "\<dots> = length (filter (\<lambda>j. toLowerCase (status j) = k) ms)"
    by (rule group_counts_sum) simp_all
  finally show ?thesis .
qed

text \<open>
  C5. For an authenticated caller and a working query, \<open>getStatsAction\<close> returns an
  object whose keys are exactly pending, interview and declined, each with the number of
  the caller's rows whose lower-cased status is that key (0 when there is none); a row
  whose lower-cased status is none of the three is counted nowhere.
\<close>

theorem stats_counts:
  assumes "u \<noteq> []" and "GroupBy \<notin> faults db"
  shows "\<exists>m. getStatsAction (Some u) db = Return m
           \<and> dom m = {''pending'', ''interview'', ''declined''}
           \<and> (\<forall>k \<in> {''pending'', ''interview'', ''declined''}.
                 m k = Some (length (filter (\<lambda>j. clerkId j = u \<and> toLowerCase (status j) = k)
                                            (rows db))))"
proof -
  define ms where "ms = filter (\<lambda>j. clerkId j = u) (rows db)"
  define gs where "gs = map (\<lambda>s. (s, length (filter (\<lambda>j. status j = s) ms))) (remdups (map status ms))"
  define m where "m = [''pending'' \<mapsto> 0, ''declined'' \<mapsto> 0, ''interview'' \<mapsto> 0] ++ foldl countStatus Map.empty gs"
  have r: "getStatsAction (Some u) db = Return m"
    using assms
    by (simp add: getStatsAction_def authenticateAndRedirect_def job_groupBy_status_def
        satisfies_owner m_def gs_def ms_def Let_def)
  have v: "m k = (if k \<in> {''pending'', ''interview'', ''declined''}
                  then Some (length (filter (\<lambda>j. toLowerCase (status j) = k) ms)) else None)" for k
  proof -
    have s: "sum_list (map snd (filter (\<lambda>g. toLowerCase (fst g) = k) gs))
               = length (filter (\<lambda>j. toLowerCase (status j) = k) ms)"
      unfolding gs_def by (rule groups_sum)
    have z: "sum_list (map snd (filter (\<lambda>g. toLowerCase (fst g) = k) gs)) = 0"
      if "\<not> (\<exists>g \<in> set gs. toLowerCase (fst g) = k)"
      using that by (simp add: filter_False)
    show ?thesis
      unfolding m_def map_add_def foldl_countStatus[of Map.empty gs k]
      using s z by auto
  qed
  have d: "dom m = {''pending'', ''interview'', ''declined''}"
    by (auto simp: dom_def v split: if_splits)
  have c: "m k = Some (length (filter (\<lambda>j. clerkId j = u \<and> toLowerCase (status j) = k) (rows db)))"
    if "k \<in> {''pending'', ''interview'', ''declined''}" for k
    using that by (simp only: v ms_def filter_filter if_True conj_commute)
  from r d c show ?thesis by blast
qed

theorem stats_counts_witness:
  "\<exists>m. getStatsAction (Some ''u1'') exampleDb = Return m
       \<and> dom m = {''pending'', ''interview'', ''declined''}
       \<and> m ''pending'' = Some 2 \<and> m ''interview'' = Some 0 \<and> m ''declined'' = Some 0"
  using stats_counts[of "''u1''" exampleDb]
  by (simp add: exampleDb_def jobA_def jobB_def toLowerCase_def lowerChar_def numeral_2_eq_2)

section \<open>Monthly trend\<close>

subsection \<open>Months and labels\<close>

lemma monthIndex_less_12: "monthIndex m < 12"
  by (cases m) simp_all

lemma monthIndex_inj: "monthIndex a = monthIndex b \<Longrightarrow> a = b"
  by (cases a; cases b) simp_all

lemma monthShort_inj: "monthShort a = monthShort b \<Longrightarrow> a = b"
  by (cases a; cases b) simp_all

lemma length_monthShort: "length (monthShort m) = 3"
  by (cases m) simp_all

lemma monthIndex_monthOfIndex: "monthIndex (monthOfIndex n) = n mod 12"
proof -
  have "\<forall>k \<in> set [0..<12]. monthIndex (monthOfIndex k) = k"
    by code_simp
  moreover have "n mod 12 \<in> set [0..<12]" by simp
  ultimately have "monthIndex (monthOfIndex (n mod 12)) = n mod 12" by blast
  then show ?thesis by (simp add: monthOfIndex_def)
qed

lemma monthNo_inj: "monthNo p = monthNo q \<Longrightarrow> p = q"
proof -
  assume e: "monthNo p = monthNo q"
  have lp: "monthIndex (snd p) < 12" and lq: "monthIndex (snd q) < 12"
    by (rule monthIndex_less_12)+
  from e lp lq have "fst p = fst q \<and> monthIndex (snd p) = monthIndex (snd q)"
    unfolding monthNo_def by presburger
  then show ?thesis
    by (auto simp: prod_eq_iff dest: monthIndex_inj)
qed

lemma monthNo_less_iff:
  "monthNo (y, m) < monthNo (y', m') \<longleftrightarrow> y < y' \<or> y = y' \<and> monthIndex m < monthIndex m'"
  using monthIndex_less_12[of m] monthIndex_less_12[of m']
  unfolding monthNo_def by (simp only: fst_conv snd_conv) presburger

lemma dateKey_le_monthNo:
  assumes "dateKey a \<le> dateKey b"
  shows "monthNo (year a, month a) \<le> monthNo (year b, month b)"
proof -
  from assms have "year a < year b \<or> year a = year b \<and> monthIndex (month a) \<le> monthIndex (month b)"
    by (auto simp: dateKey_def less_eq_prod_def)
  then show ?thesis
    using monthIndex_less_12[of "month a"] monthIndex_less_12[of "month b"]
    unfolding monthNo_def by (simp only: fst_conv snd_conv) presburger
qed

lemma monthNo_subtractMonths:
  "monthNo (year (subtractMonths n d), month (subtractMonths n d)) = monthNo (year d, month d) - n"
  by (simp add: subtractMonths_def monthNo_def Let_def monthIndex_monthOfIndex)

lemma label_inj_in_window:
  assumes "formatMMMYY a = formatMMMYY b"
    and "lo \<le> monthNo (year a, month a)" and "monthNo (year a, month a) \<le> lo + 6"
    and "lo \<le> monthNo (year b, month b)" and "monthNo (year b, month b) \<le> lo + 6"
  shows "(year a, month a) = (year b, month b)"
proof -
  from assms(1) have "monthShort (month a) = monthShort (month b)"
    by (simp add: formatMMMYY_def append_eq_append_conv length_monthShort)
  then have m: "month a = month b" by (rule monthShort_inj)
  with assms(2-5) have "year a = year b"
    unfolding monthNo_def by simp
  with m show ?thesis by simp
qed

subsection \<open>The reducer\<close>

text \<open>
  Over jobs in month order whose labels tell their months apart, the reducer yields one
  entry per month, in month order, each with the number of the jobs of that month.
\<close>

lemma addApplication_miss:
  assumes "\<forall>e \<in> set es. date e \<noteq> d"
  shows "addApplication d es = es @ [\<lparr>date = d, count' = 1\<rparr>]"
  using assms by (induction es) simp_all

lemma addApplication_hit:
  assumes "distinct ps" and "p \<in> set ps" and "inj_on lab (set ps)"
  shows "addApplication (lab p) (map (\<lambda>q. \<lparr>date = lab q, count' = c q\<rparr>) ps)
           = map (\<lambda>q. \<lparr>date = lab q, count' = (if q = p then c q + 1 else c q)\<rparr>) ps"
  using assms
proof (induction ps)
  case Nil
  then show ?case by simp
next
  case (Cons q ps)
  show ?case
  proof (cases "q = p")
    case True
    with Cons.prems(1) have "\<forall>r \<in> set ps. r \<noteq> p" by auto
    then have "map (\<lambda>q. \<lparr>date = lab q, count' = (if q = p then c q + 1 else c q)\<rparr>) ps
                 = map (\<lambda>q. \<lparr>date = lab q, count' = c q\<rparr>) ps"
      by (intro map_cong) auto
    with True show ?thesis by simp
  next
    case False
    with Cons.prems have p: "p \<in> set ps" and "lab q \<noteq> lab p"
      by (auto dest: inj_onD)
    moreover from Cons.prems have "distinct ps" and "inj_on lab (set ps)"
      by (auto simp: inj_on_def)
    ultimately show ?thesis
      using Cons.IH False by simp
  qed
qed

lemma applicationsPerMonth_snoc:
  "applicationsPerMonth (js @ [j]) = addApplication (formatMMMYY (createdAt j)) (applicationsPerMonth js)"
  by (simp add: applicationsPerMonth_def)

lemma applicationsPerMonth_months:
  assumes "sorted_wrt (\<lambda>a b. monthNo (ym a) \<le> monthNo (ym b)) js"
    and "inj_on lab (ym ` set js)"
    and "\<forall>j \<in> set js. formatMMMYY (createdAt j) = lab (ym j)"
  shows "\<exists>ps. applicationsPerMonth js
                 = map (\<lambda>p. \<lparr>date = lab p, count' = length (filter (\<lambda>j. ym j = p) js)\<rparr>) ps
            \<and> sorted_wrt (\<lambda>p q. monthNo p < monthNo q) ps
            \<and> set ps = ym ` set js"
  using assms
proof (induction js rule: rev_induct)
  case Nil
  show ?case by (simp add: applicationsPerMonth_def)
next
  case (snoc j js)
  from snoc.prems have s: "sorted_wrt (\<lambda>a b. monthNo (ym a) \<le> monthNo (ym b)) js"
    and le: "\<forall>a \<in> set js. monthNo (ym a) \<le> monthNo (ym j)"
    and inj: "inj_on lab (insert (ym j) (ym ` set js))"
    and labj: "formatMMMYY (createdAt j) = lab (ym j)"
    and labs: "\<forall>j \<in> set js. formatMMMYY (createdAt j) = lab (ym j)"
    by (simp_all add: sorted_wrt_append)
  from inj have inj': "inj_on lab (ym ` set js)"
    by (rule inj_on_subset) auto
  from snoc.IH[OF s inj' labs] obtain ps where
    ap: "applicationsPerMonth js
           = map (\<lambda>p. \<lparr>date = lab p, count' = length (filter (\<lambda>j. ym j = p) js)\<rparr>) ps"
    and so: "sorted_wrt (\<lambda>p q. monthNo p < monthNo q) ps"
    and se: "set ps = ym ` set js"
    by blast
  from so have di: "distinct ps"
    by (induction ps) auto
  show ?case
  proof (cases "ym j \<in> set ps")
    case True
    have "applicationsPerMonth (js @ [j])
            = map (\<lambda>p. \<lparr>date = lab p,
                 count' = (if p = ym j then length (filter (\<lambda>j. ym j = p) js) + 1
                           else length (filter (\<lambda>j. ym j = p) js))\<rparr>) ps"
      unfolding applicationsPerMonth_snoc ap labj
      using di True inj' se by (intro addApplication_hit) simp_all
    also have "\<dots> = map (\<lambda>p. \<lparr>date = lab p, count' = length (filter (\<lambda>i. ym i = p) (js @ [j]))\<rparr>) ps"
      by (intro map_cong) auto
    finally have "applicationsPerMonth (js @ [j])
        = map (\<lambda>p. \<lparr>date = lab p, count' = length (filter (\<lambda>i. ym i = p) (js @ [j]))\<rparr>) ps" .
    moreover from True se have "set ps = ym ` set (js @ [j])" by auto
    ultimately show ?thesis using so by blast
  next
    case False
    have miss: "\<forall>e \<in> set (applicationsPerMonth js). date e \<noteq> lab (ym j)"
    proof
      fix e assume "e \<in> set (applicationsPerMonth js)"
      then obtain p where p: "p \<in> set ps" and e: "date e = lab p"
        unfolding ap by auto
      from p False have "p \<noteq> ym j" by auto
      moreover from p se have "p \<in> insert (ym j) (ym ` set js)" by simp
      ultimately have "lab p \<noteq> lab (ym j)"
        using inj_onD[OF inj, of p "ym j"] by blast
      with e show "date e \<noteq> lab (ym j)" by simp
    qed
    from False se have none: "filter (\<lambda>i. ym i = ym j) js = []"
      unfolding filter_empty_conv by (metis imageI)
    have "applicationsPerMonth (js @ [j])
            = map (\<lambda>p. \<lparr>date = lab p, count' = length (filter (\<lambda>j. ym j = p) js)\<rparr>) ps
              @ [\<lparr>date = lab (ym j), count' = 1\<rparr>]"
      unfolding applicationsPerMonth_snoc labj addApplication_miss[OF miss]
      by (simp only: ap)
    also have "map (\<lambda>p. \<lparr>date = lab p, count' = length (filter (\<lambda>j. ym j = p) js)\<rparr>) ps
         = map (\<lambda>p. \<lparr>date = lab p, count' = length (filter (\<lambda>i. ym i = p) (js @ [j]))\<rparr>) ps"
      using False by (intro map_cong) auto
    finally have "applicationsPerMonth (js @ [j])
        = map (\<lambda>p. \<lparr>date = lab p, count' = length (filter (\<lambda>i. ym i = p) (js @ [j]))\<rparr>) (ps @ [ym j])"
      using none by simp
    moreover have "sorted_wrt (\<lambda>p q. monthNo p < monthNo q) (ps @ [ym j])"
    proof -
      have "monthNo p < monthNo (ym j)" if "p \<in> set ps" for p
      proof -
        from that se le have "monthNo p \<le> monthNo (ym j)" by auto
        moreover from that False have "p \<noteq> ym j" by auto
        then have "monthNo p \<noteq> monthNo (ym j)" by (auto dest: monthNo_inj)
        ultimately show ?thesis by simp
      qed
      with so show ?thesis by (simp add: sorted_wrt_append)
    qed
    moreover from se have "set (ps @ [ym j]) = ym ` set (js @ [j])" by auto
    ultimately show ?thesis by blast
  qed
qed

subsection \<open>The action\<close>

lemma satisfies_window:
  "satisfies [ClerkIdEquals u, CreatedAtGte s, CreatedAtLte n]
     = (\<lambda>j. clerkId j = u \<and> dateKey s \<le> dateKey (createdAt j) \<and> dateKey (createdAt j) \<le> dateKey n)"
  by (rule ext) (simp add: satisfies_def)


text \<open>
  C6. For an authenticated caller, a working query and the two clock readings of the
  request (\<open>now\<close> first, \<open>now2\<close> not before it; the same instant when the clock does not
  move in between), the window W holds the caller's rows with \<open>createdAt\<close> from
  \<open>now2\<close> minus 6 months to \<open>now\<close>, both ends included. \<open>getChartsDataAction\<close> returns
  one entry per calendar month that has a row in W and no entry for any other month, in
  ascending order of the months, each labelled with the short month name and the last
  two digits of the year and holding the number of rows of W in that month. Rows before
  the window and rows after \<open>now\<close> are in no entry.
\<close>

theorem monthly_trend:
  assumes "u \<noteq> []" and "FindMany \<notin> faults db" and "dateKey now \<le> dateKey now2"
    and W: "W = (\<lambda>j. clerkId j = u \<and> dateKey (subtractMonths 6 now2) \<le> dateKey (createdAt j)
                      \<and> dateKey (createdAt j) \<le> dateKey now)"
  shows "\<exists>ps. getChartsDataAction (Some u) now now2 db
                = Return (map (\<lambda>(y, m).
                    \<lparr>date = monthShort m @ '' '' @ sliceLast2 (decimal y),
                     count' = length (filter (\<lambda>j. W j \<and> year (createdAt j) = y
                                                  \<and> month (createdAt j) = m) (rows db))\<rparr>) ps)
            \<and> sorted_wrt (\<lambda>(y, m) (y', m'). y < y' \<or> y = y' \<and> monthIndex m < monthIndex m') ps
            \<and> set ps = (\<lambda>j. (year (createdAt j), month (createdAt j))) ` {j \<in> set (rows db). W j}"
proof -
  define ym where "ym = (\<lambda>j :: Job. (year (createdAt j), month (createdAt j)))"
  define lab where "lab = (\<lambda>p :: nat \<times> Month. monthShort (snd p) @ '' '' @ sliceLast2 (decimal (fst p)))"
  define js where "js = sort_key (\<lambda>j. dateKey (createdAt j)) (filter W (rows db))"
  define lo where "lo = monthNo (year now2, month now2) - 6"
  have r: "getChartsDataAction (Some u) now now2 db = Return (applicationsPerMonth js)"
    using assms(1,2)
    by (simp add: getChartsDataAction_def authenticateAndRedirect_def
        job_findMany_all[OF assms(2)] satisfies_window js_def W Let_def)
  have "sorted (map (\<lambda>j. dateKey (createdAt j)) js)"
    unfolding js_def by (rule sorted_sort_key)
  then have "sorted_wrt (\<lambda>a b. dateKey (createdAt a) \<le> dateKey (createdAt b)) js"
    by (simp add: sorted_map)
  then have so: "sorted_wrt (\<lambda>a b. monthNo (ym a) \<le> monthNo (ym b)) js"
    by (rule sorted_wrt_mono_rel[rotated]) (simp add: ym_def dateKey_le_monthNo)
  have bounds: "lo \<le> monthNo (ym j) \<and> monthNo (ym j) \<le> lo + 6" if "j \<in> set js" for j
  proof -
    from that have w: "W j" by (simp add: js_def)
    then have "monthNo (year (subtractMonths 6 now2), month (subtractMonths 6 now2)) \<le> monthNo (ym j)"
      unfolding ym_def W by (intro dateKey_le_monthNo) simp
    then have 1: "lo \<le> monthNo (ym j)"
      by (simp only: monthNo_subtractMonths lo_def)
    from w have "monthNo (ym j) \<le> monthNo (year now, month now)"
      unfolding ym_def W by (intro dateKey_le_monthNo) simp
    also have "\<dots> \<le> monthNo (year now2, month now2)"
      using assms(3) by (rule dateKey_le_monthNo)
    also have "\<dots> \<le> lo + 6"
      by (simp add: lo_def)
    finally show ?thesis using 1 by simp
  qed
  have labs: "\<forall>j \<in> set js. formatMMMYY (createdAt j) = lab (ym j)"
    by (simp add: formatMMMYY_def lab_def ym_def)
  have inj: "inj_on lab (ym ` set js)"
  proof (rule inj_onI)
    fix p q assume "p \<in> ym ` set js" and "q \<in> ym ` set js" and e: "lab p = lab q"
    then obtain a b where a: "a \<in> set js" "p = ym a" and b: "b \<in> set js" "q = ym b"
      by blast
    from e a b labs have "formatMMMYY (createdAt a) = formatMMMYY (createdAt b)"
      by simp
    from label_inj_in_window[OF this, of lo] bounds[OF a(1)] bounds[OF b(1)]
    show "p = q"
      by (simp add: a b ym_def)
  qed
  from applicationsPerMonth_months[OF so inj labs] obtain ps where
    ap: "applicationsPerMonth js
           = map (\<lambda>p. \<lparr>date = lab p, count' = length (filter (\<lambda>j. ym j = p) js)\<rparr>) ps"
    and sp: "sorted_wrt (\<lambda>p q. monthNo p < monthNo q) ps"
    and se: "set ps = ym ` set js"
    by blast
  have cnt: "length (filter (\<lambda>j. ym j = (y, m)) js)
               = length (filter (\<lambda>j. W j \<and> year (createdAt j) = y \<and> month (createdAt j) = m) (rows db))"
    for y m
    unfolding js_def filter_sort length_sort filter_filter ym_def by simp
  have "applicationsPerMonth js
          = map (\<lambda>(y, m). \<lparr>date = monthShort m @ '' '' @ sliceLast2 (decimal y),
                     count' = length (filter (\<lambda>j. W j \<and> year (createdAt j) = y
                                                  \<and> month (createdAt j) = m) (rows db))\<rparr>) ps"
    unfolding ap by (intro map_cong refl) (simp add: lab_def cnt split: prod.splits)
  moreover have "sorted_wrt (\<lambda>(y, m) (y', m'). y < y' \<or> y = y' \<and> monthIndex m < monthIndex m') ps"
    using sp by (rule sorted_wrt_mono_rel[rotated]) (auto simp: monthNo_less_iff)
  moreover have "set ps = (\<lambda>j. (year (createdAt j), month (createdAt j))) ` {j \<in> set (rows db). W j}"
    unfolding se by (simp add: js_def ym_def)
  ultimately show ?thesis unfolding r by blast
qed

lemma format_oct3: "formatMMMYY oct3 = ''Oct 25''"
  by (simp add: formatMMMYY_def sliceLast2_def oct3_def decimal.simps)

lemma format_nov3: "formatMMMYY nov3 = ''Nov 25''"
  by (simp add: formatMMMYY_def sliceLast2_def nov3_def decimal.simps)

lemma trend_rows:
  "job_findMany [ClerkIdEquals ''u1'', CreatedAtGte (subtractMonths 6 nov3), CreatedAtLte nov3]
       Asc None None trendDb = Inr [jobA, jobB]"
  by (simp add: job_findMany_def optIntArg_def skipTake_def satisfies_window trendDb_def
      jobA_def jobB_def jobOld_def jobFuture_def oct3_def nov3_def apr30_def dec1_def
      dateKey_def subtractMonths_def monthOfIndex_def Let_def)

lemma trend_fold:
  "applicationsPerMonth [jobA, jobB]
     = [\<lparr>date = ''Oct 25'', count' = 1\<rparr>, \<lparr>date = ''Nov 25'', count' = 1\<rparr>]"
  by (simp add: applicationsPerMonth_def jobA_def jobB_def format_oct3 format_nov3)

lemma trend_example:
  "getChartsDataAction (Some ''u1'') nov3 nov3 trendDb
     = Return [\<lparr>date = ''Oct 25'', count' = 1\<rparr>, \<lparr>date = ''Nov 25'', count' = 1\<rparr>]"
  by (simp add: getChartsDataAction_def authenticateAndRedirect_def trend_rows trend_fold)

theorem monthly_trend_witness:
  "''u1'' \<noteq> [] \<and> FindMany \<notin> faults trendDb \<and> dateKey nov3 \<le> dateKey nov3
   \<and> getChartsDataAction (Some ''u1'') nov3 nov3 trendDb
       = Return [\<lparr>date = ''Oct 25'', count' = 1\<rparr>, \<lparr>date = ''Nov 25'', count' = 1\<rparr>]
   \<and> (\<exists>ps. getChartsDataAction (Some ''u1'') nov3 nov3 trendDb
                = Return (map (\<lambda>(y, m).
                    \<lparr>date = monthShort m @ '' '' @ sliceLast2 (decimal y),
                     count' = length (filter (\<lambda>j. (clerkId j = ''u1'' \<and> dateKey (subtractMonths 6 nov3) \<le> dateKey (createdAt j)
                      \<and> dateKey (createdAt j) \<le> dateKey nov3) \<and> year (createdAt j) = y
                                                  \<and> month (createdAt j) = m) (rows trendDb))\<rparr>) ps)
            \<and> sorted_wrt (\<lambda>(y, m) (y', m'). y < y' \<or> y = y' \<and> monthIndex m < monthIndex m') ps
            \<and> set ps = (\<lambda>j. (year (createdAt j), month (createdAt j))) ` {j \<in> set (rows trendDb). clerkId j = ''u1'' \<and> dateKey (subtractMonths 6 nov3) \<le> dateKey (createdAt j)
                      \<and> dateKey (createdAt j) \<le> dateKey nov3})"
proof -
  have h1: "''u1'' \<noteq> []" by simp
  have h2: "FindMany \<notin> faults trendDb" by (simp add: trendDb_def)
  have h3: "dateKey nov3 \<le> dateKey nov3" by simp
  from monthly_trend[OF h1 h2 h3 refl] h1 h2 h3 trend_example show ?thesis
    by (intro conjI) assumption+
qed

section \<open>Search\<close>

text \<open>
  A term without \<^verbatim>\<open>%\<close>, \<^verbatim>\<open>_\<close> and backslash is matched as a plain substring, with
  letter case counting.
\<close>

lemma like_percent: "like ''%'' t"
  by (induction t) simp_all

lemma like_percent_Cons: "like (CHR ''%'' # ps) t \<longleftrightarrow> (\<exists>pre r. t = pre @ r \<and> like ps r)"
proof (induction t)
  case Nil
  show ?case by simp
next
  case (Cons c cs)
  have "like (CHR ''%'' # ps) (c # cs) \<longleftrightarrow> like ps (c # cs) \<or> like (CHR ''%'' # ps) cs"
    by simp
  also have "\<dots> \<longleftrightarrow> like ps (c # cs) \<or> (\<exists>pre r. cs = pre @ r \<and> like ps r)"
    by (simp only: Cons.IH)
  also have "\<dots> \<longleftrightarrow> (\<exists>pre r. c # cs = pre @ r \<and> like ps r)"
  proof
    assume "like ps (c # cs) \<or> (\<exists>pre r. cs = pre @ r \<and> like ps r)"
    then show "\<exists>pre r. c # cs = pre @ r \<and> like ps r"
    proof
      assume "like ps (c # cs)"
      then have "c # cs = [] @ (c # cs) \<and> like ps (c # cs)" by simp
      then show ?thesis by blast
    next
      assume "\<exists>pre r. cs = pre @ r \<and> like ps r"
      then obtain pre r where "cs = pre @ r" and "like ps r" by blast
      then have "c # cs = (c # pre) @ r \<and> like ps r" by simp
      then show ?thesis by blast
    qed
  next
    assume "\<exists>pre r. c # cs = pre @ r \<and> like ps r"
    then obtain pre r where e: "c # cs = pre @ r" and l: "like ps r" by blast
    show "like ps (c # cs) \<or> (\<exists>pre r. cs = pre @ r \<and> like ps r)"
    proof (cases pre)
      case Nil
      with e l show ?thesis by simp
    next
      case (Cons d pre')
      with e have "cs = pre' @ r" by simp
      with l show ?thesis by blast
    qed
  qed
  finally show ?case .
qed

lemma like_plain_prefix:
  assumes "CHR ''%'' \<notin> set t" and "CHR ''_'' \<notin> set t" and "CHR 0x5C \<notin> set t"
  shows "like (t @ ps) f \<longleftrightarrow> (\<exists>r. f = t @ r \<and> like ps r)"
  using assms
proof (induction t arbitrary: f)
  case Nil
  show ?case by simp
next
  case (Cons c t)
  then have c: "c \<noteq> CHR ''%''" "c \<noteq> CHR ''_''" "c \<noteq> CHR 0x5C"
    and t: "CHR ''%'' \<notin> set t" "CHR ''_'' \<notin> set t" "CHR 0x5C \<notin> set t"
    by auto
  show ?case
  proof (cases f)
    case Nil
    with c show ?thesis by simp
  next
    case (Cons d f')
    with c have "like ((c # t) @ ps) f \<longleftrightarrow> d = c \<and> like (t @ ps) f'"
      by simp
    also have "\<dots> \<longleftrightarrow> d = c \<and> (\<exists>r. f' = t @ r \<and> like ps r)"
      by (simp only: Cons.IH[OF t])
    also have "\<dots> \<longleftrightarrow> (\<exists>r. f = (c # t) @ r \<and> like ps r)"
      using Cons by auto
    finally show ?thesis .
  qed
qed

lemma contains_plain:
  assumes "CHR ''%'' \<notin> set t" and "CHR ''_'' \<notin> set t" and "CHR 0x5C \<notin> set t"
  shows "stringContains Default field t \<longleftrightarrow> sublist t field"
proof -
  have "stringContains Default field t \<longleftrightarrow> like (CHR ''%'' # t @ ''%'') field"
    by (simp add: stringContains_def)
  also have "\<dots> \<longleftrightarrow> (\<exists>pre r. field = pre @ r \<and> like (t @ ''%'') r)"
    by (rule like_percent_Cons)
  also have "\<dots> \<longleftrightarrow> (\<exists>pre r. field = pre @ r \<and> (\<exists>r'. r = t @ r' \<and> like ''%'' r'))"
    by (simp only: like_plain_prefix[OF assms])
  also have "\<dots> \<longleftrightarrow> (\<exists>pre r'. field = pre @ t @ r')"
    by (auto simp: like_percent)
  also have "\<dots> \<longleftrightarrow> sublist t field"
    by (simp add: sublist_def)
  finally show ?thesis .
qed

text \<open>
  What the search condition of \<open>getAllJobsAction\<close> selects for such a term that is not
  empty: the caller's rows that hold the term, as written, in the position or in the
  company, and that have the status asked for when one is given.
\<close>

lemma search_filter:
  assumes "s \<noteq> []" and "CHR ''%'' \<notin> set s" and "CHR ''_'' \<notin> set s" and "CHR 0x5C \<notin> set s"
  shows "satisfies (whereClause u (Some s) None) j
           \<longleftrightarrow> clerkId j = u \<and> (sublist s (position j) \<or> sublist s (company j))"
  using assms(1) by (simp add: satisfies_whereClause contains_plain[OF assms(2-4)])

lemma search_filter_status:
  assumes "s \<noteq> []" and "CHR ''%'' \<notin> set s" and "CHR ''_'' \<notin> set s" and "CHR 0x5C \<notin> set s"
    and "st \<noteq> []" and "st \<noteq> ''all''"
  shows "satisfies (whereClause u (Some s) (Some st)) j
           \<longleftrightarrow> clerkId j = u \<and> (sublist s (position j) \<or> sublist s (company j)) \<and> status j = st"
  using assms(1,5,6) by (simp add: satisfies_whereClause contains_plain[OF assms(2-4)])

text \<open>
  C4, at an input of the code. The job of user u1 with position "Engineer": the term
  "engineer" is a substring of the position when letter case is ignored, yet
  \<open>getAllJobsAction\<close> with that term returns no job and count 0; with the term
  "Engineer" it returns the job. The filter is built without the insensitive mode, so
  the match is case-sensitive, against the comment that announces a case-insensitive
  one.
\<close>

theorem search_is_case_sensitive:
  "sublist (toLowerCase ''engineer'') (toLowerCase (position jobA))
   \<and> getAllJobsAction (Some ''u1'') (Some ''engineer'') None None None exampleDb
       = Return \<lparr>jobs = [], count = 0, page = Num 1, totalPages = Num 0\<rparr>
   \<and> getAllJobsAction (Some ''u1'') (Some ''Engineer'') None None None exampleDb
       = Return \<lparr>jobs = [jobA], count = 1, page = Num 1, totalPages = Num 1\<rparr>"
proof -
  have 1: "sublist (toLowerCase ''engineer'') (toLowerCase (position jobA))"
    by (simp add: jobA_def toLowerCase_def lowerChar_def)
  have f1: "filter (satisfies (whereClause ''u1'' (Some ''engineer'') None)) (rows exampleDb) = []"
    by (simp add: search_filter exampleDb_def jobA_def jobB_def sublist_Cons_right)
  have f2: "filter (satisfies (whereClause ''u1'' (Some ''Engineer'') None)) (rows exampleDb) = [jobA]"
    by (simp add: search_filter exampleDb_def jobA_def jobB_def sublist_Cons_right)
  have fl: "faults exampleDb = {}"
    by (simp add: exampleDb_def)
  have c: "\<lceil>(1::rat) / 10\<rceil> = 1"
    by (rule ceiling_unique) simp_all
  have 2: "getAllJobsAction (Some ''u1'') (Some ''engineer'') None None None exampleDb
       = Return \<lparr>jobs = [], count = 0, page = Num 1, totalPages = Num 0\<rparr>"
    by (simp add: getAllJobsAction_def authenticateAndRedirect_def job_findMany_def
        job_count_def optIntArg_def intArg_def f1 fl skipTake_def Let_def)
  have 3: "getAllJobsAction (Some ''u1'') (Some ''Engineer'') None None None exampleDb
       = Return \<lparr>jobs = [jobA], count = 1, page = Num 1, totalPages = Num 1\<rparr>"
    by (simp add: getAllJobsAction_def authenticateAndRedirect_def job_findMany_def
        job_count_def optIntArg_def intArg_def f2 fl skipTake_def Let_def c)
  from 1 2 3 show ?thesis by simp
qed

text \<open>
  The characters \<^verbatim>\<open>%\<close> and \<^verbatim>\<open>_\<close> keep their meaning inside a term: "E_gineer" is no
  substring of "Engineer" and still finds the job.
\<close>

lemma search_wildcard_example:
  "\<not> sublist ''E_gineer'' (position jobA)
   \<and> getAllJobsAction (Some ''u1'') (Some ''E_gineer'') None None None exampleDb
       = Return \<lparr>jobs = [jobA], count = 1, page = Num 1, totalPages = Num 1\<rparr>"
proof -
  have c: "\<lceil>(1::rat) / 10\<rceil> = 1"
    by (rule ceiling_unique) simp_all
  have 1: "\<not> sublist ''E_gineer'' (position jobA)"
    by (simp add: jobA_def sublist_Cons_right)
  have f: "filter (satisfies (whereClause ''u1'' (Some ''E_gineer'') None)) (rows exampleDb) = [jobA]"
    by (simp add: satisfies_whereClause stringContains_def exampleDb_def jobA_def jobB_def)
  have fl: "faults exampleDb = {}"
    by (simp add: exampleDb_def)
  have 2: "getAllJobsAction (Some ''u1'') (Some ''E_gineer'') None None None exampleDb
       = Return \<lparr>jobs = [jobA], count = 1, page = Num 1, totalPages = Num 1\<rparr>"
    by (simp add: getAllJobsAction_def authenticateAndRedirect_def job_findMany_def
        job_count_def optIntArg_def intArg_def f fl skipTake_def Let_def c)
  from 1 2 show ?thesis by simp
qed

end
